theory Spec2Isabelle
  imports Main "HOL-Library.Word"
begin

unbundle bit_operations_syntax

section \<open>Kinds, primitive values and errors\<close>

text \<open>
  The kinds of package \<^verbatim>\<open>reflect\<close>. The kinds without structure of their own in
  this development are collected in \<open>basic\<close>; \<open>kind\<close> adds the compound kinds and
  \<^verbatim>\<open>Invalid\<close>, the kind of the zero \<^verbatim>\<open>reflect.Value\<close>.
\<close>

datatype basic =
    KBool | KInt | KInt8 | KInt16 | KInt32 | KInt64
  | KUint | KUint8 | KUint16 | KUint32 | KUint64 | KUintptr
  | KFloat32 | KFloat64 | KComplex64 | KComplex128
  | KChan | KFunc | KInterface | KString | KUnsafePointer

datatype kind = KInvalid | Basic basic | KArray | KMap | KPtr | KSlice | KStruct

text \<open>
  Modelled from the spec: the declaration of \<^verbatim>\<open>MatchOperator\<close> is not among the source
  files; section 3.5 of the specification gives the closed set of six operators, whose
  names the source uses. The source switches on the operator with a \<^verbatim>\<open>default\<close> branch,
  so the type has one more alternative, for every value outside the declared constants.
\<close>

datatype MatchOperator =
    MatchEqual | MatchNotEqual | MatchIn | MatchNotIn | MatchIsEmpty | MatchIsNotEmpty
  | MatchOperatorOther

text \<open>
  Modelled from the spec: the declaration of \<^verbatim>\<open>UnaryOperator\<close> is not among the source
  files; by section 3.4 of the specification the one unary node is Not. The second
  alternative stands for every other value, which leaves the \<^verbatim>\<open>switch\<close> of \<^verbatim>\<open>evaluate\<close>.
\<close>

datatype UnaryOperator = UnaryOpNot | UnaryOperatorOther

text \<open>
  Modelled from the spec: the declaration of \<^verbatim>\<open>BinaryOperator\<close> is not among the source
  files; by section 3.4 of the specification the binary nodes are And and Or. The third
  alternative stands for every other value, which leaves the \<^verbatim>\<open>switch\<close> of \<^verbatim>\<open>evaluate\<close>.
\<close>

datatype BinaryOperator = BinaryOpAnd | BinaryOpOr | BinaryOperatorOther

text \<open>
  The values of the fourteen primitive kinds, as an \<^verbatim>\<open>interface{}\<close> holds them: the
  constructor is the dynamic type. \<^verbatim>\<open>int\<close> and \<^verbatim>\<open>uint\<close> are taken at 64 bits; a float
  is its IEEE 754 bit pattern.
\<close>

datatype prim =
    PBool bool
  | PInt "64 word" | PInt8 "8 word" | PInt16 "16 word" | PInt32 "32 word" | PInt64 "64 word"
  | PUint "64 word" | PUint8 "8 word" | PUint16 "16 word" | PUint32 "32 word" | PUint64 "64 word"
  | PFloat32 "32 word" | PFloat64 "64 word"
  | PString string

fun prim_kind :: "prim \<Rightarrow> basic" where
  "prim_kind (PBool _) = KBool"
| "prim_kind (PInt _) = KInt"
| "prim_kind (PInt8 _) = KInt8"
| "prim_kind (PInt16 _) = KInt16"
| "prim_kind (PInt32 _) = KInt32"
| "prim_kind (PInt64 _) = KInt64"
| "prim_kind (PUint _) = KUint"
| "prim_kind (PUint8 _) = KUint8"
| "prim_kind (PUint16 _) = KUint16"
| "prim_kind (PUint32 _) = KUint32"
| "prim_kind (PUint64 _) = KUint64"
| "prim_kind (PFloat32 _) = KFloat32"
| "prim_kind (PFloat64 _) = KFloat64"
| "prim_kind (PString _) = KString"

text \<open>
  The errors the two source files build with \<^verbatim>\<open>fmt.Errorf\<close>, one constructor for
  each format string with its arguments, and \<open>ErrEvaluator\<close> for whatever error an
  \<^verbatim>\<open>ExpressionEvaluator\<close> of the caller returns.
\<close>

datatype error =
    ErrCannotPerformIn kind "string list"
  | ErrInvalidMatchOperation MatchOperator
  | ErrNoNestedSelection "string list" kind
  | ErrInvalidASTNode
  | ErrMapKeysNotStrings
  | ErrInvalidTopLevelType
  | ErrEvaluator string

text \<open>
  A Go function returning \<^verbatim>\<open>(T, error)\<close> either panics or returns both components;
  the error component is \<open>None\<close> for \<^verbatim>\<open>nil\<close>.
\<close>

datatype 'a res = Panic | Return 'a "error option"

section \<open>Field configurations and types\<close>

text \<open>
  A \<^verbatim>\<open>FieldValueCoercionFn\<close> is kept by reference: \<open>CoercePrimitive k\<close> is the coercion
  function of the primitive kind \<open>k\<close>, \<open>CoerceCustom\<close> any other function from the raw
  text to a value and an error.
\<close>

datatype FieldValueCoercionFn =
    CoercePrimitive basic
  | CoerceCustom "string \<Rightarrow> prim option \<times> error option"

datatype FieldConfiguration = FieldConfiguration
  (StructFieldName: string)
  (SubFields: "(string \<Rightarrow> FieldConfiguration option) option")
  (CoerceFn: "FieldValueCoercionFn option")
  (SupportedOperations: "MatchOperator list")

text \<open>
  \<^verbatim>\<open>FieldConfigurations\<close> is a Go map from field name to a pointer; \<open>None\<close> is the
  \<^verbatim>\<open>nil\<close> map. Indexing a map, \<^verbatim>\<open>nil\<close> or not, at a missing name gives the \<^verbatim>\<open>nil\<close>
  pointer, \<open>None\<close> in \<open>lookupField\<close>.
\<close>

type_synonym FieldConfigurations = "(string \<Rightarrow> FieldConfiguration option) option"

definition FieldNameAny :: string where
  "FieldNameAny = ''''"

definition lookupField :: "FieldConfigurations \<Rightarrow> string \<Rightarrow> FieldConfiguration option" where
  "lookupField fields name = (case fields of None \<Rightarrow> None | Some m \<Rightarrow> m name)"

text \<open>
  Modelled from the spec: the primitive kinds are the ones section 3.1 of the
  specification lists, the keys of the table \<^verbatim>\<open>primitiveEqualityFns\<close> of the source.
\<close>

definition primitive :: "basic \<Rightarrow> bool" where
  "primitive k \<longleftrightarrow>
     k \<in> {KBool, KInt, KInt8, KInt16, KInt32, KInt64, KUint, KUint8, KUint16, KUint32,
          KUint64, KFloat32, KFloat64, KString}"

text \<open>
  Modelled from the spec: the table \<^verbatim>\<open>primitiveCoercionFns\<close> is not among the source
  files; by section 3.2 of the specification it holds one coercion function for each
  primitive kind. Indexing it at any other kind gives no function.
\<close>

definition primitiveCoercionFns :: "kind \<Rightarrow> FieldValueCoercionFn option" where
  "primitiveCoercionFns k =
     (case k of Basic b \<Rightarrow> (if primitive b then Some (CoercePrimitive b) else None)
      | _ \<Rightarrow> None)"

text \<open>
  Modelled from the spec: \<^verbatim>\<open>CoerceString\<close> is not among the source files; by section 3.2
  of the specification it is the coercion function of kind String, the identity.
\<close>

definition CoerceString :: FieldValueCoercionFn where
  "CoerceString = CoercePrimitive KString"

text \<open>
  A \<^verbatim>\<open>reflect.Type\<close>, as a finite tree. A struct field carries what the deriver reads of
  a \<^verbatim>\<open>reflect.StructField\<close>: \<^verbatim>\<open>Name\<close>, \<^verbatim>\<open>PkgPath\<close> (empty for an exported field),
  the value of \<^verbatim>\<open>Tag.Get("bexpr")\<close> and \<^verbatim>\<open>Type\<close>. \<open>TBasic KString\<close> is the type
  \<^verbatim>\<open>string\<close>, and so on for the other predeclared types. \<open>TDefined t\<close> is a defined type
  with underlying type \<open>t\<close>, as \<^verbatim>\<open>type ID string\<close> declares one. \<open>TEvaluator c t\<close> is a
  type of the shape \<open>t\<close> that has the two methods of \<^verbatim>\<open>ExpressionEvaluator\<close>, its
  \<^verbatim>\<open>FieldConfigurations()\<close> returning \<open>c\<close>: a type that declares them with value
  receivers, a pointer type \<open>TEvaluator c (TPtr u)\<close> whose element type \<open>u\<close> declares them
  with pointer receivers, or an interface type \<open>TEvaluator c (TBasic KInterface)\<close> that
  lists them.
\<close>

datatype StructField = StructField
  (Name: string) (PkgPath: string) (bexprTag: string) (Type: rtype)
and rtype =
    TBasic basic
  | TPtr rtype
  | TMap rtype rtype
  | TSlice rtype
  | TArray rtype
  | TStruct "StructField list"
  | TDefined rtype
  | TEvaluator FieldConfigurations rtype

fun Type_Kind :: "rtype \<Rightarrow> kind" where
  "Type_Kind (TBasic b) = Basic b"
| "Type_Kind (TPtr _) = KPtr"
| "Type_Kind (TMap _ _) = KMap"
| "Type_Kind (TSlice _) = KSlice"
| "Type_Kind (TArray _) = KArray"
| "Type_Kind (TStruct _) = KStruct"
| "Type_Kind (TDefined t) = Type_Kind t"
| "Type_Kind (TEvaluator _ t) = Type_Kind t"

text \<open>
  \<^verbatim>\<open>rtype.Implements\<close> of the \<^verbatim>\<open>ExpressionEvaluator\<close> interface, with the configurations
  the method returns. The method set of a pointer type \<^verbatim>\<open>*T\<close> holds the methods \<^verbatim>\<open>T\<close>
  declares with value receivers, unless \<^verbatim>\<open>T\<close> is itself a pointer or an interface type:
  a pointer to one of these has no methods.
\<close>

fun Implements :: "rtype \<Rightarrow> FieldConfigurations option" where
  "Implements (TEvaluator c _) = Some c"
| "Implements (TPtr (TEvaluator c t)) =
     (if Type_Kind t = KPtr \<or> Type_Kind t = Basic KInterface then None else Some c)"
| "Implements _ = None"

text \<open>
  \<^verbatim>\<open>derefType\<close>: the loop \<^verbatim>\<open>for rtype.Kind() == reflect.Ptr { rtype = rtype.Elem() }\<close>.
\<close>

fun derefType :: "rtype \<Rightarrow> rtype" where
  "derefType (TPtr t) = derefType t"
| "derefType (TDefined t) = (if Type_Kind t = KPtr then derefType t else TDefined t)"
| "derefType (TEvaluator c t) = (if Type_Kind t = KPtr then derefType t else TEvaluator c t)"
| "derefType t = t"

section \<open>Values\<close>

text \<open>
  Modelled from the spec: the \<^verbatim>\<open>ExpressionEvaluator\<close> interface is not among the source
  files; by section 4.4 of the specification it offers \<^verbatim>\<open>FieldConfigurations()\<close> and
  \<^verbatim>\<open>EvaluateMatch(selector, operator, value)\<close>, which returns a boolean and an error as
  the source's callers show. The value handed to it is the one \<^verbatim>\<open>getMatchExprValue\<close>
  returns.
\<close>

type_synonym EvaluateMatch = "string list \<Rightarrow> MatchOperator \<Rightarrow> prim option \<Rightarrow> bool res"

text \<open>
  A \<^verbatim>\<open>reflect.Value\<close>. \<open>VInvalid\<close> is the zero Value. A struct lists its exported
  fields by name, the ones promoted from embedded structs among them; on the Value of
  an unexported field \<^verbatim>\<open>Interface()\<close> panics, as it does on the zero Value that
  \<^verbatim>\<open>FieldByName\<close> gives for a missing name. A slice or array carries its element type, a map
  its key type and its entries, the keys kept to primitive values. \<open>VPtr None\<close> is a
  \<^verbatim>\<open>nil\<close> pointer, \<open>VInterface\<close> a Value of kind Interface with the value it holds,
  \<open>VChan n\<close> a channel holding \<open>n\<close> elements, \<open>VOther\<close> a value of one of the
  remaining kinds. Each of these is a value at a predeclared or unnamed type:
  \<open>VPrim (PString s)\<close> is a \<^verbatim>\<open>string\<close>. \<open>VDefined v\<close> is the value \<open>v\<close> at a defined
  type, and \<open>VEvaluator f v\<close> the value \<open>v\<close> at a dynamic type that implements
  \<^verbatim>\<open>ExpressionEvaluator\<close>, with \<open>f\<close> its \<^verbatim>\<open>EvaluateMatch\<close>. A pointer to a value with value
  receivers is at such a type as well: its \<^verbatim>\<open>EvaluateMatch\<close> is the one of the value it
  points to, and panics when the pointer is \<^verbatim>\<open>nil\<close>.
\<close>

datatype "Value" =
    VInvalid
  | VPrim prim
  | VStruct "(string \<times> Value) list"
  | VSlice rtype "Value list"
  | VArray rtype "Value list"
  | VMap rtype "(prim \<times> Value) list"
  | VPtr "Value option"
  | VInterface "Value option"
  | VChan nat
  | VOther basic
  | VDefined "Value"
  | VEvaluator EvaluateMatch "Value"

fun unwrap :: "Value \<Rightarrow> Value" where
  "unwrap (VEvaluator f v) = unwrap v"
| "unwrap (VDefined v) = unwrap v"
| "unwrap v = v"

definition Value_Kind :: "Value \<Rightarrow> kind" where
  "Value_Kind v =
     (case unwrap v of
        VInvalid \<Rightarrow> KInvalid
      | VPrim p \<Rightarrow> Basic (prim_kind p)
      | VStruct _ \<Rightarrow> KStruct
      | VSlice _ _ \<Rightarrow> KSlice
      | VArray _ _ \<Rightarrow> KArray
      | VMap _ _ \<Rightarrow> KMap
      | VPtr _ \<Rightarrow> KPtr
      | VInterface _ \<Rightarrow> Basic KInterface
      | VChan _ \<Rightarrow> Basic KChan
      | VOther b \<Rightarrow> Basic b
      | VDefined _ \<Rightarrow> KInvalid
      | VEvaluator _ _ \<Rightarrow> KInvalid)"

text \<open>
  \<^verbatim>\<open>reflect.Indirect\<close>: one pointer level is followed, a \<^verbatim>\<open>nil\<close> pointer gives the zero
  Value, any other value is returned as it is.
\<close>

definition Indirect :: "Value \<Rightarrow> Value" where
  "Indirect v = (case unwrap v of VPtr None \<Rightarrow> VInvalid | VPtr (Some w) \<Rightarrow> w | _ \<Rightarrow> v)"

text \<open>
  \<^verbatim>\<open>Value.Interface()\<close> panics on the zero Value (the outer \<open>None\<close>); a Value of kind
  Interface gives the value it holds, possibly the \<^verbatim>\<open>nil\<close> interface (the inner
  \<open>None\<close>).
\<close>

definition Interface :: "Value \<Rightarrow> Value option option" where
  "Interface v = (case v of VInvalid \<Rightarrow> None | VInterface x \<Rightarrow> Some x | _ \<Rightarrow> Some (Some v))"

text \<open>The type assertion \<^verbatim>\<open>x.(ExpressionEvaluator)\<close>.\<close>

definition asEvaluator :: "Value option \<Rightarrow> EvaluateMatch option" where
  "asEvaluator x = (case x of Some (VEvaluator f _) \<Rightarrow> Some f | _ \<Rightarrow> None)"

text \<open>\<^verbatim>\<open>Value.FieldByName\<close>: the zero Value when the struct has no such field.\<close>

definition FieldByName :: "Value \<Rightarrow> string \<Rightarrow> Value" where
  "FieldByName v name =
     (case unwrap v of
        VStruct fs \<Rightarrow> (case map_of fs name of None \<Rightarrow> VInvalid | Some w \<Rightarrow> w)
      | _ \<Rightarrow> VInvalid)"

text \<open>
  \<^verbatim>\<open>Value.MapIndex(reflect.ValueOf(key))\<close>: a panic (\<open>None\<close>) when the key is the zero
  Value or its type is not assignable to the map's key type, the zero Value when the
  map has no such key. The key is of a predeclared type, which is assignable to itself
  and to the empty interface type (every interface type is taken to be the empty one),
  and not to a defined type.
\<close>

definition assignable :: "prim \<Rightarrow> rtype \<Rightarrow> bool" where
  "assignable k t \<longleftrightarrow> t = TBasic (prim_kind k) \<or> Type_Kind t = Basic KInterface"

definition MapIndex :: "Value \<Rightarrow> prim option \<Rightarrow> Value option" where
  "MapIndex v key =
     (case unwrap v of
        VMap kt es \<Rightarrow>
          (case key of
             None \<Rightarrow> None
           | Some k \<Rightarrow>
               if assignable k kt
               then Some (case map_of es k of None \<Rightarrow> VInvalid | Some w \<Rightarrow> w)
               else None)
      | _ \<Rightarrow> None)"

text \<open>
  \<^verbatim>\<open>Value.Len()\<close> panics (\<open>None\<close>) unless the kind is Array, Chan, Map, Slice or
  String.
\<close>

definition Len :: "Value \<Rightarrow> nat option" where
  "Len v =
     (case unwrap v of
        VPrim (PString s) \<Rightarrow> Some (length s)
      | VSlice _ xs \<Rightarrow> Some (length xs)
      | VArray _ xs \<Rightarrow> Some (length xs)
      | VMap _ es \<Rightarrow> Some (length (remdups (map fst es)))
      | VChan n \<Rightarrow> Some n
      | _ \<Rightarrow> None)"

text \<open>The elements \<^verbatim>\<open>Value.Index(i)\<close> ranges over, and \<^verbatim>\<open>Value.Type().Elem()\<close>.\<close>

definition elements :: "Value \<Rightarrow> Value list" where
  "elements v = (case unwrap v of VSlice _ xs \<Rightarrow> xs | VArray _ xs \<Rightarrow> xs | _ \<Rightarrow> [])"

definition Type_Elem :: "Value \<Rightarrow> rtype option" where
  "Type_Elem v = (case unwrap v of VSlice t _ \<Rightarrow> Some t | VArray t _ \<Rightarrow> Some t | _ \<Rightarrow> None)"

section \<open>The expression AST\<close>

text \<open>
  Modelled from the spec: the declaration of \<^verbatim>\<open>MatchValue\<close> is not among the source
  files; by section 3.4 of the specification the value of a match expression is its raw
  text and, once validated, its converted value. The field names are the ones the
  source reads; the converted value is kept to the primitive values, \<open>None\<close> for \<^verbatim>\<open>nil\<close>.
\<close>

record MatchValue =
  Raw :: string
  Converted :: "prim option"

text \<open>
  Modelled from the spec: the declaration of \<^verbatim>\<open>MatchExpr\<close> is not among the source files;
  by section 3.4 of the specification a match expression has a selector, an operator
  and an optional value. The field names are the ones the source reads.
\<close>

record MatchExpr =
  Selector :: "string list"
  Operator :: MatchOperator
  Value :: "MatchValue option"

text \<open>
  Modelled from the spec: the declarations of \<^verbatim>\<open>Expr\<close>, \<^verbatim>\<open>UnaryExpr\<close> and \<^verbatim>\<open>BinaryExpr\<close>
  are not among the source files; by section 3.4 of the specification a node is a unary
  node with its operand, a binary node with its two operands or a match expression.
  \<open>OtherExpr\<close> stands for an \<^verbatim>\<open>Expr\<close> of any other dynamic type, which the last line of
  \<^verbatim>\<open>evaluate\<close> answers.
\<close>

datatype Expr =
    UnaryExpr UnaryOperator Expr
  | BinaryExpr Expr BinaryOperator Expr
  | MatchExpression MatchExpr
  | OtherExpr

section \<open>Evaluation\<close>

subsection \<open>Equality of primitive values\<close>

text \<open>
  The \<^verbatim>\<open>==\<close> of Go on floats, on bit patterns: a NaN equals nothing, the two zeros are
  equal, any other two floats are equal when their bits are.
\<close>

definition float32_eq :: "32 word \<Rightarrow> 32 word \<Rightarrow> bool" where
  "float32_eq a b \<longleftrightarrow>
     \<not> (a AND 0x7F800000 = 0x7F800000 \<and> a AND 0x007FFFFF \<noteq> 0) \<and>
     \<not> (b AND 0x7F800000 = 0x7F800000 \<and> b AND 0x007FFFFF \<noteq> 0) \<and>
     (a = b \<or> (a AND 0x7FFFFFFF = 0 \<and> b AND 0x7FFFFFFF = 0))"

definition float64_eq :: "64 word \<Rightarrow> 64 word \<Rightarrow> bool" where
  "float64_eq a b \<longleftrightarrow>
     \<not> (a AND 0x7FF0000000000000 = 0x7FF0000000000000 \<and> a AND 0x000FFFFFFFFFFFFF \<noteq> 0) \<and>
     \<not> (b AND 0x7FF0000000000000 = 0x7FF0000000000000 \<and> b AND 0x000FFFFFFFFFFFFF \<noteq> 0) \<and>
     (a = b \<or> (a AND 0x7FFFFFFFFFFFFFFF = 0 \<and> b AND 0x7FFFFFFFFFFFFFFF = 0))"

text \<open>
  Each \<^verbatim>\<open>doEqualT\<close> asserts both arguments to the type \<^verbatim>\<open>T\<close>; a failed type assertion
  panics, \<open>None\<close> here. A value at a defined type is not of the type \<^verbatim>\<open>T\<close>, whatever
  its underlying type.
\<close>

definition doEqualBool :: "prim option \<Rightarrow> Value option \<Rightarrow> bool option" where
  "doEqualBool first second =
     (case first of
        Some (PBool a) \<Rightarrow> (case second of Some (VPrim (PBool b)) \<Rightarrow> Some (a = b) | _ \<Rightarrow> None)
      | _ \<Rightarrow> None)"

definition doEqualInt :: "prim option \<Rightarrow> Value option \<Rightarrow> bool option" where
  "doEqualInt first second =
     (case first of
        Some (PInt a) \<Rightarrow> (case second of Some (VPrim (PInt b)) \<Rightarrow> Some (a = b) | _ \<Rightarrow> None)
      | _ \<Rightarrow> None)"

definition doEqualInt8 :: "prim option \<Rightarrow> Value option \<Rightarrow> bool option" where
  "doEqualInt8 first second =
     (case first of
        Some (PInt8 a) \<Rightarrow> (case second of Some (VPrim (PInt8 b)) \<Rightarrow> Some (a = b) | _ \<Rightarrow> None)
      | _ \<Rightarrow> None)"

definition doEqualInt16 :: "prim option \<Rightarrow> Value option \<Rightarrow> bool option" where
  "doEqualInt16 first second =
     (case first of
        Some (PInt16 a) \<Rightarrow> (case second of Some (VPrim (PInt16 b)) \<Rightarrow> Some (a = b) | _ \<Rightarrow> None)
      | _ \<Rightarrow> None)"

definition doEqualInt32 :: "prim option \<Rightarrow> Value option \<Rightarrow> bool option" where
  "doEqualInt32 first second =
     (case first of
        Some (PInt32 a) \<Rightarrow> (case second of Some (VPrim (PInt32 b)) \<Rightarrow> Some (a = b) | _ \<Rightarrow> None)
      | _ \<Rightarrow> None)"

definition doEqualInt64 :: "prim option \<Rightarrow> Value option \<Rightarrow> bool option" where
  "doEqualInt64 first second =
     (case first of
        Some (PInt64 a) \<Rightarrow> (case second of Some (VPrim (PInt64 b)) \<Rightarrow> Some (a = b) | _ \<Rightarrow> None)
      | _ \<Rightarrow> None)"

definition doEqualUint :: "prim option \<Rightarrow> Value option \<Rightarrow> bool option" where
  "doEqualUint first second =
     (case first of
        Some (PUint a) \<Rightarrow> (case second of Some (VPrim (PUint b)) \<Rightarrow> Some (a = b) | _ \<Rightarrow> None)
      | _ \<Rightarrow> None)"

definition doEqualUint8 :: "prim option \<Rightarrow> Value option \<Rightarrow> bool option" where
  "doEqualUint8 first second =
     (case first of
        Some (PUint8 a) \<Rightarrow> (case second of Some (VPrim (PUint8 b)) \<Rightarrow> Some (a = b) | _ \<Rightarrow> None)
      | _ \<Rightarrow> None)"

definition doEqualUint16 :: "prim option \<Rightarrow> Value option \<Rightarrow> bool option" where
  "doEqualUint16 first second =
     (case first of
        Some (PUint16 a) \<Rightarrow> (case second of Some (VPrim (PUint16 b)) \<Rightarrow> Some (a = b) | _ \<Rightarrow> None)
      | _ \<Rightarrow> None)"

definition doEqualUint32 :: "prim option \<Rightarrow> Value option \<Rightarrow> bool option" where
  "doEqualUint32 first second =
     (case first of
        Some (PUint32 a) \<Rightarrow> (case second of Some (VPrim (PUint32 b)) \<Rightarrow> Some (a = b) | _ \<Rightarrow> None)
      | _ \<Rightarrow> None)"

definition doEqualUint64 :: "prim option \<Rightarrow> Value option \<Rightarrow> bool option" where
  "doEqualUint64 first second =
     (case first of
        Some (PUint64 a) \<Rightarrow> (case second of Some (VPrim (PUint64 b)) \<Rightarrow> Some (a = b) | _ \<Rightarrow> None)
      | _ \<Rightarrow> None)"

definition doEqualFloat32 :: "prim option \<Rightarrow> Value option \<Rightarrow> bool option" where
  "doEqualFloat32 first second =
     (case first of
        Some (PFloat32 a) \<Rightarrow> (case second of Some (VPrim (PFloat32 b)) \<Rightarrow> Some (float32_eq a b) | _ \<Rightarrow> None)
      | _ \<Rightarrow> None)"

definition doEqualFloat64 :: "prim option \<Rightarrow> Value option \<Rightarrow> bool option" where
  "doEqualFloat64 first second =
     (case first of
        Some (PFloat64 a) \<Rightarrow> (case second of Some (VPrim (PFloat64 b)) \<Rightarrow> Some (float64_eq a b) | _ \<Rightarrow> None)
      | _ \<Rightarrow> None)"

definition doEqualString :: "prim option \<Rightarrow> Value option \<Rightarrow> bool option" where
  "doEqualString first second =
     (case first of
        Some (PString a) \<Rightarrow> (case second of Some (VPrim (PString b)) \<Rightarrow> Some (a = b) | _ \<Rightarrow> None)
      | _ \<Rightarrow> None)"

text \<open>
  The table \<^verbatim>\<open>primitiveEqualityFns\<close>; indexing it at any other kind gives the \<^verbatim>\<open>nil\<close>
  function, \<open>None\<close>.
\<close>

definition primitiveEqualityFns ::
  "kind \<Rightarrow> (prim option \<Rightarrow> Value option \<Rightarrow> bool option) option" where
  "primitiveEqualityFns k =
     (case k of
        Basic b \<Rightarrow>
          (case b of
             KBool \<Rightarrow> Some doEqualBool
           | KInt \<Rightarrow> Some doEqualInt
           | KInt8 \<Rightarrow> Some doEqualInt8
           | KInt16 \<Rightarrow> Some doEqualInt16
           | KInt32 \<Rightarrow> Some doEqualInt32
           | KInt64 \<Rightarrow> Some doEqualInt64
           | KUint \<Rightarrow> Some doEqualUint
           | KUint8 \<Rightarrow> Some doEqualUint8
           | KUint16 \<Rightarrow> Some doEqualUint16
           | KUint32 \<Rightarrow> Some doEqualUint32
           | KUint64 \<Rightarrow> Some doEqualUint64
           | KFloat32 \<Rightarrow> Some doEqualFloat32
           | KFloat64 \<Rightarrow> Some doEqualFloat64
           | KString \<Rightarrow> Some doEqualString
           | _ \<Rightarrow> None)
      | _ \<Rightarrow> None)"

subsection \<open>The match operations\<close>

definition getMatchExprValue :: "MatchExpr \<Rightarrow> prim option" where
  "getMatchExprValue expression =
     (case Value expression of
        None \<Rightarrow> None
      | Some v \<Rightarrow> (case Converted v of Some c \<Rightarrow> Some c | None \<Rightarrow> Some (PString (Raw v))))"

text \<open>
  \<^verbatim>\<open>doMatchEqual\<close>: calling the \<^verbatim>\<open>nil\<close> function panics, and so does
  \<^verbatim>\<open>value.Interface()\<close> on the zero Value.
\<close>

definition doMatchEqual :: "MatchExpr \<Rightarrow> Value \<Rightarrow> bool res" where
  "doMatchEqual expression v =
     (case primitiveEqualityFns (Value_Kind v) of
        None \<Rightarrow> Panic
      | Some eqFn \<Rightarrow>
          (case Interface v of
             None \<Rightarrow> Panic
           | Some second \<Rightarrow>
               (case eqFn (getMatchExprValue expression) second of
                  None \<Rightarrow> Panic
                | Some b \<Rightarrow> Return b None)))"

text \<open>\<^verbatim>\<open>strings.Contains\<close>.\<close>

fun HasPrefix :: "string \<Rightarrow> string \<Rightarrow> bool" where
  "HasPrefix s [] = True"
| "HasPrefix [] (c # p) = False"
| "HasPrefix (d # s) (c # p) = (d = c \<and> HasPrefix s p)"

fun Contains :: "string \<Rightarrow> string \<Rightarrow> bool" where
  "Contains [] substr = (substr = [])"
| "Contains (c # s) substr = (HasPrefix (c # s) substr \<or> Contains s substr)"

text \<open>
  The loop of \<^verbatim>\<open>doMatchIn\<close> over a slice or array: the first element equal to the match
  value ends it.
\<close>

fun doMatchIn_loop ::
  "(prim option \<Rightarrow> Value option \<Rightarrow> bool option) option \<Rightarrow> prim option \<Rightarrow> Value list \<Rightarrow> bool res" where
  "doMatchIn_loop eqFn matchValue [] = Return False None"
| "doMatchIn_loop eqFn matchValue (item # items) =
     (case eqFn of
        None \<Rightarrow> Panic
      | Some eq \<Rightarrow>
          (case Interface (Indirect item) of
             None \<Rightarrow> Panic
           | Some second \<Rightarrow>
               (case eq matchValue second of
                  None \<Rightarrow> Panic
                | Some b \<Rightarrow> if b then Return True None else doMatchIn_loop eqFn matchValue items)))"

definition IsValid :: "Value \<Rightarrow> bool" where
  "IsValid v = (case v of VInvalid \<Rightarrow> False | _ \<Rightarrow> True)"

definition doMatchIn :: "MatchExpr \<Rightarrow> Value \<Rightarrow> bool res" where
  "doMatchIn expression v =
     (let matchValue = getMatchExprValue expression in
      case Value_Kind v of
        KMap \<Rightarrow>
          (case MapIndex v matchValue of
             None \<Rightarrow> Panic
           | Some found \<Rightarrow> Return (IsValid found) None)
      | KSlice \<Rightarrow>
          (case Type_Elem v of
             None \<Rightarrow> Panic
           | Some t \<Rightarrow>
               doMatchIn_loop (primitiveEqualityFns (Type_Kind (derefType t))) matchValue
                 (elements v))
      | KArray \<Rightarrow>
          (case Type_Elem v of
             None \<Rightarrow> Panic
           | Some t \<Rightarrow>
               doMatchIn_loop (primitiveEqualityFns (Type_Kind (derefType t))) matchValue
                 (elements v))
      | Basic KString \<Rightarrow>
          (case unwrap v of
             VPrim (PString s) \<Rightarrow>
               (case matchValue of
                  Some (PString m) \<Rightarrow> Return (Contains s m) None
                | _ \<Rightarrow> Panic)
           | _ \<Rightarrow> Panic)
      | kind \<Rightarrow> Return False (Some (ErrCannotPerformIn kind (Selector expression))))"

definition doMatchIsEmpty :: "MatchExpr \<Rightarrow> Value \<Rightarrow> bool res" where
  "doMatchIsEmpty matcher v =
     (case Len v of None \<Rightarrow> Panic | Some n \<Rightarrow> Return (n = 0) None)"

subsection \<open>Traversal along the selector\<close>

lemma size_unwrap: "size (unwrap v) \<le> size v"
  by (induction v) auto

lemma size_Indirect: "size (Indirect v) \<le> size v"
  using size_unwrap [of v] by (auto simp: Indirect_def split: Value.splits option.splits)

lemma size_elements: "size_list size (elements v) \<le> size v"
  using size_unwrap [of v] by (auto simp: elements_def split: Value.splits)

text \<open>
  \<^verbatim>\<open>evaluateMatchExpressionRecurse\<close>, with the \<^verbatim>\<open>for\<close> loop of its slice and array
  case as a second function over the elements still to visit. Indexing the \<^verbatim>\<open>nil\<close>
  pointer that \<^verbatim>\<open>fields[name]\<close> gives for a missing name panics, and so does
  \<^verbatim>\<open>value.Interface()\<close> on the zero Value.
\<close>

function evaluateMatchExpressionRecurse ::
    "MatchExpr \<Rightarrow> nat \<Rightarrow> Value \<Rightarrow> FieldConfigurations \<Rightarrow> bool res"
  and evaluateMatchExpressionRecurse_loop ::
    "MatchExpr \<Rightarrow> nat \<Rightarrow> Value list \<Rightarrow> FieldConfigurations \<Rightarrow> bool res"
where
  "evaluateMatchExpressionRecurse expression depth rvalue fields' =
     (if depth \<ge> length (Selector expression) then
        (case Operator expression of
           MatchEqual \<Rightarrow> doMatchEqual expression rvalue
         | MatchNotEqual \<Rightarrow>
             (case doMatchEqual expression rvalue of
                Panic \<Rightarrow> Panic
              | Return result None \<Rightarrow> Return (\<not> result) None
              | Return result (Some err) \<Rightarrow> Return False (Some err))
         | MatchIn \<Rightarrow> doMatchIn expression rvalue
         | MatchNotIn \<Rightarrow>
             (case doMatchIn expression rvalue of
                Panic \<Rightarrow> Panic
              | Return result None \<Rightarrow> Return (\<not> result) None
              | Return result (Some err) \<Rightarrow> Return False (Some err))
         | MatchIsEmpty \<Rightarrow> doMatchIsEmpty expression rvalue
         | MatchIsNotEmpty \<Rightarrow>
             (case doMatchIsEmpty expression rvalue of
                Panic \<Rightarrow> Panic
              | Return result None \<Rightarrow> Return (\<not> result) None
              | Return result (Some err) \<Rightarrow> Return False (Some err))
         | MatchOperatorOther \<Rightarrow>
             Return False (Some (ErrInvalidMatchOperation (Operator expression))))
      else
        (case Value_Kind rvalue of
           KStruct \<Rightarrow>
             (let fieldName = Selector expression ! depth in
              case lookupField fields' fieldName of
                None \<Rightarrow> Panic
              | Some fieldConfig \<Rightarrow>
                  (let fieldName' =
                         (if StructFieldName fieldConfig \<noteq> [] then StructFieldName fieldConfig
                          else fieldName);
                       v = Indirect (FieldByName rvalue fieldName')
                   in case Interface v of
                        None \<Rightarrow> Panic
                      | Some i \<Rightarrow>
                          (case asEvaluator i of
                             Some matcher \<Rightarrow>
                               matcher (drop (depth + 1) (Selector expression))
                                 (Operator expression) (getMatchExprValue expression)
                           | None \<Rightarrow>
                               evaluateMatchExpressionRecurse expression (depth + 1) v
                                 (SubFields fieldConfig))))
         | KSlice \<Rightarrow> evaluateMatchExpressionRecurse_loop expression depth (elements rvalue) fields'
         | KArray \<Rightarrow> evaluateMatchExpressionRecurse_loop expression depth (elements rvalue) fields'
         | KMap \<Rightarrow>
             (case MapIndex rvalue (Some (PString (Selector expression ! depth))) of
                None \<Rightarrow> Panic
              | Some found \<Rightarrow>
                  (let v = Indirect found in
                   if \<not> IsValid v then
                     (case Operator expression of
                        MatchEqual \<Rightarrow> Return False None
                      | MatchIsNotEmpty \<Rightarrow> Return False None
                      | MatchIn \<Rightarrow> Return False None
                      | _ \<Rightarrow> Return True None)
                   else
                     (case Interface v of
                        None \<Rightarrow> Panic
                      | Some i \<Rightarrow>
                          (case asEvaluator i of
                             Some matcher \<Rightarrow>
                               matcher (drop (depth + 1) (Selector expression))
                                 (Operator expression) (getMatchExprValue expression)
                           | None \<Rightarrow>
                               (case lookupField fields' FieldNameAny of
                                  None \<Rightarrow> Panic
                                | Some fieldConfig \<Rightarrow>
                                    evaluateMatchExpressionRecurse expression (depth + 1) v
                                      (SubFields fieldConfig))))))
         | kind \<Rightarrow>
             Return False
               (Some (ErrNoNestedSelection (take depth (Selector expression)) kind))))"
| "evaluateMatchExpressionRecurse_loop expression depth [] fields' = Return False None"
| "evaluateMatchExpressionRecurse_loop expression depth (item # items) fields' =
     (case evaluateMatchExpressionRecurse expression depth (Indirect item) fields' of
        Panic \<Rightarrow> Panic
      | Return result (Some err) \<Rightarrow> Return False (Some err)
      | Return result None \<Rightarrow>
          if result then Return True None
          else evaluateMatchExpressionRecurse_loop expression depth items fields')"
  by pat_completeness auto
termination
  apply (relation "inv_image (less_than <*lex*> less_than)
    (\<lambda>x. case x of
       Inl (e, d, v, f) \<Rightarrow> (length (Selector e) - d, 2 * size v + 1)
     | Inr (e, d, xs, f) \<Rightarrow> (length (Selector e) - d, 2 * size_list size xs))")
        apply (intro wf_inv_image wf_lex_prod wf_less_than)
       apply auto
  subgoal for expression depth rvalue using size_elements [of rvalue] by linarith
  subgoal for expression depth rvalue using size_elements [of rvalue] by linarith
  subgoal for item items using size_Indirect [of item] by linarith
  done

declare evaluateMatchExpressionRecurse.simps [simp del]

definition evaluateMatchExpression ::
  "MatchExpr \<Rightarrow> Value \<Rightarrow> FieldConfigurations \<Rightarrow> bool res" where
  "evaluateMatchExpression expression datum fields' =
     (case asEvaluator (Some datum) of
        Some matcher \<Rightarrow>
          matcher (Selector expression) (Operator expression) (getMatchExprValue expression)
      | None \<Rightarrow> evaluateMatchExpressionRecurse expression 0 (Indirect datum) fields')"

text \<open>
  \<^verbatim>\<open>evaluate\<close>. The datum is the \<^verbatim>\<open>interface{}\<close> argument as \<^verbatim>\<open>reflect.ValueOf\<close> shows
  it, \<open>VInvalid\<close> for \<^verbatim>\<open>nil\<close>. A unary or binary node whose operator is none of the
  declared ones leaves its \<^verbatim>\<open>switch\<close> and reaches the last line.
\<close>

fun evaluate :: "Expr \<Rightarrow> Value \<Rightarrow> FieldConfigurations \<Rightarrow> bool res" where
  "evaluate (UnaryExpr operator operand) datum fields' =
     (case operator of
        UnaryOpNot \<Rightarrow>
          (case evaluate operand datum fields' of
             Panic \<Rightarrow> Panic
           | Return result err \<Rightarrow> Return (\<not> result) err)
      | UnaryOperatorOther \<Rightarrow> Return False (Some ErrInvalidASTNode))"
| "evaluate (BinaryExpr left operator right) datum fields' =
     (case operator of
        BinaryOpAnd \<Rightarrow>
          (case evaluate left datum fields' of
             Panic \<Rightarrow> Panic
           | Return result err \<Rightarrow>
               if err \<noteq> None \<or> result = False then Return result err
               else evaluate right datum fields')
      | BinaryOpOr \<Rightarrow>
          (case evaluate left datum fields' of
             Panic \<Rightarrow> Panic
           | Return result err \<Rightarrow>
               if err \<noteq> None \<or> result = True then Return result err
               else evaluate right datum fields')
      | BinaryOperatorOther \<Rightarrow> Return False (Some ErrInvalidASTNode))"
| "evaluate (MatchExpression node) datum fields' = evaluateMatchExpression node datum fields'"
| "evaluate OtherExpr datum fields' = Return False (Some ErrInvalidASTNode)"

section \<open>Schema derivation\<close>

text \<open>
  \<^verbatim>\<open>Type.Key()\<close>, \<^verbatim>\<open>Type.Elem()\<close> and the fields \<^verbatim>\<open>Type.Field(i)\<close> ranges over; each panics
  (\<open>None\<close>) on a type of another kind.
\<close>

fun Key :: "rtype \<Rightarrow> rtype option" where
  "Key (TMap k _) = Some k"
| "Key (TDefined t) = Key t"
| "Key (TEvaluator _ t) = Key t"
| "Key _ = None"

fun Elem :: "rtype \<Rightarrow> rtype option" where
  "Elem (TPtr t) = Some t"
| "Elem (TMap _ e) = Some e"
| "Elem (TSlice e) = Some e"
| "Elem (TArray e) = Some e"
| "Elem (TDefined t) = Elem t"
| "Elem (TEvaluator _ t) = Elem t"
| "Elem _ = None"

fun structFields :: "rtype \<Rightarrow> StructField list option" where
  "structFields (TStruct fs) = Some fs"
| "structFields (TDefined t) = structFields t"
| "structFields (TEvaluator _ t) = structFields t"
| "structFields _ = None"

text \<open>\<^verbatim>\<open>strings.Split\<close> at a separator of one character.\<close>

fun Split :: "string \<Rightarrow> char \<Rightarrow> string list" where
  "Split [] sep = [[]]"
| "Split (c # s) sep =
     (if c = sep then [] # Split s sep
      else (case Split s sep of [] \<Rightarrow> [[c]] | p # ps \<Rightarrow> (c # p) # ps))"

text \<open>\<^verbatim>\<open>len(m) > 0\<close> of a \<^verbatim>\<open>FieldConfigurations\<close> map.\<close>

definition nonEmpty :: "FieldConfigurations \<Rightarrow> bool" where
  "nonEmpty m = (case m of None \<Rightarrow> False | Some f \<Rightarrow> f \<noteq> Map.empty)"

lemma size_derefType: "size (derefType t) \<le> size t"
  by (induction t rule: derefType.induct) auto

lemma size_Key: "Key t = Some k \<Longrightarrow> size k < size t"
  by (induction t rule: Key.induct) auto

lemma size_Elem: "Elem t = Some e \<Longrightarrow> size e < size t"
  by (induction t rule: Elem.induct) auto

lemma size_Key_Elem: "Key t = Some k \<Longrightarrow> Elem t = Some e \<Longrightarrow> size k + size e < size t"
  by (induction t rule: Key.induct) auto

lemma size_structFields: "structFields t = Some fs \<Longrightarrow> size_list size fs < size t"
  by (induction t rule: structFields.induct) auto

text \<open>
  The part of the loop body of \<^verbatim>\<open>generateStructFieldConfigurations\<close> that computes
  \<^verbatim>\<open>fieldNames\<close> from the field's annotation: \<open>None\<close> where it leaves the iteration with
  \<^verbatim>\<open>continue\<close>. The assignment \<^verbatim>\<open>cfg.StructFieldName = field.Name\<close> is
  \<open>setStructFieldName\<close>.
\<close>

definition fieldNames :: "StructField \<Rightarrow> string list option" where
  "fieldNames field =
     (let fieldTag = bexprTag field in
      if fieldTag \<noteq> [] then
        (let parts = Split fieldTag CHR '','' in
         if length parts > 0 then (if parts ! 0 = ''-'' then None else Some parts)
         else Some [Name field])
      else Some [Name field])"

definition setStructFieldName :: "FieldConfiguration \<Rightarrow> string \<Rightarrow> FieldConfiguration" where
  "setStructFieldName cfg name =
     FieldConfiguration name (SubFields cfg) (CoerceFn cfg) (SupportedOperations cfg)"

text \<open>
  The four derivation functions of the source and the \<^verbatim>\<open>for\<close> loop over the fields of a
  struct, which takes the fields still to visit and the map built so far. A composite
  literal leaves the fields it does not name at their zero values. Assigning to
  \<^verbatim>\<open>cfg.StructFieldName\<close> through a \<^verbatim>\<open>nil\<close> pointer panics. For a type that implements
  \<^verbatim>\<open>ExpressionEvaluator\<close>, \<^verbatim>\<open>reflect.New(rtype)\<close> is a pointer to a zero value, of the type
  \<open>TPtr rtype\<close>, and the type assertion \<^verbatim>\<open>value.Interface().(ExpressionEvaluator)\<close> panics
  when that pointer type does not implement the interface, as for an interface type
  \<^verbatim>\<open>rtype\<close>; otherwise the method is called through a pointer that is not \<^verbatim>\<open>nil\<close>.
\<close>

lemma size_derefType_Elem: "Elem t = Some e \<Longrightarrow> size (derefType e) < size t"
  using size_Elem [of t e] size_derefType [of e] by linarith

lemma size_derefType_Type: "size (derefType (Type f)) < size f"
  using size_derefType [of "Type f"] by (cases f) auto

function generateFieldConfigurationInternal :: "rtype \<Rightarrow> FieldConfiguration option res"
  and generateSliceFieldConfiguration :: "rtype \<Rightarrow> FieldConfiguration option res"
  and generateMapFieldConfiguration :: "rtype \<Rightarrow> rtype \<Rightarrow> FieldConfiguration option res"
  and generateStructFieldConfigurations :: "rtype \<Rightarrow> FieldConfigurations res"
  and generateStructFieldConfigurations_loop ::
    "StructField list \<Rightarrow> (string \<Rightarrow> FieldConfiguration option) \<Rightarrow> FieldConfigurations res"
where
  "generateFieldConfigurationInternal rtype =
     (case Implements rtype of
        Some _ \<Rightarrow>
          (case Implements (TPtr rtype) of
             None \<Rightarrow> Panic
           | Some configs \<Rightarrow> Return (Some (FieldConfiguration [] configs None [])) None)
      | None \<Rightarrow>
          (case primitiveCoercionFns (Type_Kind rtype) of
             Some coerceFn \<Rightarrow>
               Return (Some (FieldConfiguration [] None (Some coerceFn)
                               [MatchEqual, MatchNotEqual])) None
           | None \<Rightarrow>
               (case Type_Kind rtype of
                  KMap \<Rightarrow>
                    (case Key rtype of
                       None \<Rightarrow> Panic
                     | Some k \<Rightarrow>
                         (case Elem rtype of
                            None \<Rightarrow> Panic
                          | Some e \<Rightarrow>
                              generateMapFieldConfiguration (derefType k) (derefType e)))
                | KArray \<Rightarrow>
                    (case Elem rtype of
                       None \<Rightarrow> Panic
                     | Some e \<Rightarrow> generateSliceFieldConfiguration (derefType e))
                | KSlice \<Rightarrow>
                    (case Elem rtype of
                       None \<Rightarrow> Panic
                     | Some e \<Rightarrow> generateSliceFieldConfiguration (derefType e))
                | KStruct \<Rightarrow>
                    (case generateStructFieldConfigurations rtype of
                       Panic \<Rightarrow> Panic
                     | Return subfields (Some err) \<Rightarrow> Return None (Some err)
                     | Return subfields None \<Rightarrow>
                         Return (Some (FieldConfiguration [] subfields None [])) None)
                | _ \<Rightarrow> Return None None)))"
| "generateSliceFieldConfiguration elemType =
     (case primitiveCoercionFns (Type_Kind elemType) of
        Some coerceFn \<Rightarrow>
          Return (Some (FieldConfiguration [] None (Some coerceFn)
                          [MatchIn, MatchNotIn, MatchIsEmpty, MatchIsNotEmpty])) None
      | None \<Rightarrow>
          (case generateFieldConfigurationInternal elemType of
             Panic \<Rightarrow> Panic
           | Return subfield (Some err) \<Rightarrow> Return None (Some err)
           | Return subfield None \<Rightarrow>
               (case subfield of
                  None \<Rightarrow>
                    Return (Some (FieldConfiguration [] None None
                                    [MatchIsEmpty, MatchIsNotEmpty])) None
                | Some sf \<Rightarrow>
                    if nonEmpty (SubFields sf)
                    then Return (Some (FieldConfiguration [] (SubFields sf) None
                                         [MatchIsEmpty, MatchIsNotEmpty])) None
                    else Return (Some (FieldConfiguration [] None None
                                         [MatchIsEmpty, MatchIsNotEmpty])) None)))"
| "generateMapFieldConfiguration keyType valueType =
     (case Type_Kind keyType of
        Basic KString \<Rightarrow>
          (case generateFieldConfigurationInternal valueType of
             Panic \<Rightarrow> Panic
           | Return subfield (Some err) \<Rightarrow> Return None (Some err)
           | Return subfield None \<Rightarrow>
               (case subfield of
                  None \<Rightarrow>
                    Return (Some (FieldConfiguration [] None (Some CoerceString)
                                    [MatchIsEmpty, MatchIsNotEmpty, MatchIn, MatchNotIn])) None
                | Some sf \<Rightarrow>
                    Return (Some (FieldConfiguration [] (Some [FieldNameAny \<mapsto> sf])
                                    (Some CoerceString)
                                    [MatchIsEmpty, MatchIsNotEmpty, MatchIn, MatchNotIn])) None))
      | _ \<Rightarrow>
          Return (Some (FieldConfiguration [] None None [MatchIsEmpty, MatchIsNotEmpty])) None)"
| "generateStructFieldConfigurations rtype =
     (case structFields rtype of
        None \<Rightarrow> Panic
      | Some fs \<Rightarrow> generateStructFieldConfigurations_loop fs Map.empty)"
| "generateStructFieldConfigurations_loop [] fieldConfigs = Return (Some fieldConfigs) None"
| "generateStructFieldConfigurations_loop (field # rest) fieldConfigs =
     (if PkgPath field \<noteq> [] then generateStructFieldConfigurations_loop rest fieldConfigs
      else
        (case fieldNames field of
           None \<Rightarrow> generateStructFieldConfigurations_loop rest fieldConfigs
         | Some names \<Rightarrow>
             (case generateFieldConfigurationInternal (derefType (Type field)) of
                Panic \<Rightarrow> Panic
              | Return cfg (Some err) \<Rightarrow> Return None (Some err)
              | Return None None \<Rightarrow> Panic
              | Return (Some cfg) None \<Rightarrow>
                  generateStructFieldConfigurations_loop rest
                    (foldl (\<lambda>m name. m(name \<mapsto> setStructFieldName cfg (Name field)))
                       fieldConfigs names))))"
  by pat_completeness auto
termination
  by (lexicographic_order simp: size_derefType_Elem size_derefType_Type size_structFields
      less_Suc_eq)

declare generateFieldConfigurationInternal.simps [simp del]
declare generateSliceFieldConfiguration.simps [simp del]
declare generateMapFieldConfiguration.simps [simp del]
declare generateStructFieldConfigurations.simps [simp del]

text \<open>
  The method call \<^verbatim>\<open>expressionEval.FieldConfigurations()\<close> on a value \<open>v\<close> whose dynamic
  type \<open>t\<close> implements \<^verbatim>\<open>ExpressionEvaluator\<close> and returns \<open>configs\<close>. When \<open>t\<close> is a
  pointer type whose methods are the ones its element type declares with value
  receivers, the call loads the receiver through the pointer, and panics (\<open>None\<close>) when
  the pointer is \<^verbatim>\<open>nil\<close>.
\<close>

definition valueReceivers :: "rtype \<Rightarrow> bool" where
  "valueReceivers t \<longleftrightarrow>
     Type_Kind t = KPtr \<and> (case Elem t of None \<Rightarrow> False | Some u \<Rightarrow> Implements u \<noteq> None)"

definition callFieldConfigurations ::
  "rtype \<Rightarrow> Value \<Rightarrow> FieldConfigurations \<Rightarrow> FieldConfigurations option" where
  "callFieldConfigurations t v configs =
     (if valueReceivers t \<and> unwrap v = VPtr None then None else Some configs)"

text \<open>
  \<^verbatim>\<open>generateFieldConfigurationsAndType\<close>. The argument \<^verbatim>\<open>topLevelType interface{}\<close> is
  \<open>None\<close> for the \<^verbatim>\<open>nil\<close> interface, whose \<^verbatim>\<open>reflect.TypeOf\<close> is the \<^verbatim>\<open>nil\<close> Type that
  \<^verbatim>\<open>derefType\<close> cannot ask for its kind, and \<open>Some (t, v)\<close> for the value \<open>v\<close> held at the
  dynamic type \<open>t\<close>. The type assertion looks at \<open>t\<close> as it is, pointers included.
\<close>

definition generateFieldConfigurationsAndType ::
  "(rtype \<times> Value) option \<Rightarrow> (FieldConfigurations \<times> rtype) res" where
  "generateFieldConfigurationsAndType topLevelType =
     (case topLevelType of
        None \<Rightarrow> Panic
      | Some (t, v) \<Rightarrow>
          (let rtype = derefType t in
           case Implements t of
             Some configs \<Rightarrow>
               (case callFieldConfigurations t v configs of
                  None \<Rightarrow> Panic
                | Some configs' \<Rightarrow> Return (configs', rtype) None)
           | None \<Rightarrow>
               (case Type_Kind rtype of
                  KStruct \<Rightarrow>
                    (case generateStructFieldConfigurations rtype of
                       Panic \<Rightarrow> Panic
                     | Return fields' err \<Rightarrow> Return (fields', rtype) err)
                | KMap \<Rightarrow>
                    (case Key rtype of
                       None \<Rightarrow> Panic
                     | Some k \<Rightarrow>
                         if Type_Kind k \<noteq> Basic KString
                         then Return (None, rtype) (Some ErrMapKeysNotStrings)
                         else
                           (case Elem rtype of
                              None \<Rightarrow> Panic
                            | Some e \<Rightarrow>
                                (case generateFieldConfigurationInternal (derefType e) of
                                   Panic \<Rightarrow> Panic
                                 | Return field (Some err) \<Rightarrow> Return (None, rtype) (Some err)
                                 | Return None None \<Rightarrow> Return (None, rtype) None
                                 | Return (Some field) None \<Rightarrow>
                                     Return (Some [FieldNameAny \<mapsto> field], rtype) None)))
                | _ \<Rightarrow> Return (None, rtype) (Some ErrInvalidTopLevelType))))"

definition GenerateFieldConfigurations ::
  "(rtype \<times> Value) option \<Rightarrow> FieldConfigurations res" where
  "GenerateFieldConfigurations topLevelType =
     (case generateFieldConfigurationsAndType topLevelType of
        Panic \<Rightarrow> Panic
      | Return (fields', _) err \<Rightarrow> Return fields' err)"

section \<open>The result of a negated operator\<close>

text \<open>
  The result of a negated operator, from the result of the operator it negates: the
  negated boolean when there is no error, \<^verbatim>\<open>false\<close> and the same error otherwise.
\<close>

definition negated :: "bool res \<Rightarrow> bool res" where
  "negated r =
     (case r of
        Panic \<Rightarrow> Panic
      | Return result None \<Rightarrow> Return (\<not> result) None
      | Return result (Some err) \<Rightarrow> Return False (Some err))"

section \<open>Example data\<close>

text \<open>
  A record with a name and an age, the field configurations its type derives to, and
  four match expressions: two that evaluate, one whose selector names no field (the
  lookup of its configuration panics) and one that selects below a string (a runtime
  error).
\<close>

definition person_type :: rtype where
  "person_type =
     TStruct [StructField ''Name'' [] ''name'' (TBasic KString),
              StructField ''Age'' [] ''age'' (TBasic KInt)]"

definition person_fields :: FieldConfigurations where
  "person_fields =
     Some [''name'' \<mapsto> FieldConfiguration ''Name'' None (Some (CoercePrimitive KString))
                         [MatchEqual, MatchNotEqual],
           ''age'' \<mapsto> FieldConfiguration ''Age'' None (Some (CoercePrimitive KInt))
                        [MatchEqual, MatchNotEqual]]"

definition person :: "Value" where
  "person = VStruct [(''Name'', VPrim (PString ''alice'')), (''Age'', VPrim (PInt 30))]"

definition name_is_alice :: Expr where
  "name_is_alice =
     MatchExpression \<lparr>Selector = [''name''], Operator = MatchEqual,
       Value = Some \<lparr>Raw = ''alice'', Converted = Some (PString ''alice'')\<rparr>\<rparr>"

definition age_is_40 :: Expr where
  "age_is_40 =
     MatchExpression \<lparr>Selector = [''age''], Operator = MatchEqual,
       Value = Some \<lparr>Raw = ''40'', Converted = Some (PInt 40)\<rparr>\<rparr>"

definition email_is_x :: Expr where
  "email_is_x =
     MatchExpression \<lparr>Selector = [''email''], Operator = MatchEqual,
       Value = Some \<lparr>Raw = ''x'', Converted = None\<rparr>\<rparr>"

definition name_first_is_al :: Expr where
  "name_first_is_al =
     MatchExpression \<lparr>Selector = [''name'', ''first''], Operator = MatchEqual,
       Value = Some \<lparr>Raw = ''al'', Converted = None\<rparr>\<rparr>"

text \<open>
  A record whose field \<^verbatim>\<open>Meta\<close> is a \<^verbatim>\<open>map[string]string\<close> with the one key \<^verbatim>\<open>env\<close>, and
  the match expressions \<^verbatim>\<open>meta.missing op "x"\<close>.
\<close>

definition service_type :: rtype where
  "service_type =
     TStruct [StructField ''Meta'' [] ''meta'' (TMap (TBasic KString) (TBasic KString))]"

definition meta_fields :: FieldConfigurations where
  "meta_fields =
     Some ['''' \<mapsto> FieldConfiguration [] None (Some (CoercePrimitive KString))
                       [MatchEqual, MatchNotEqual]]"

definition service_fields :: FieldConfigurations where
  "service_fields =
     Some [''meta'' \<mapsto>
       FieldConfiguration ''Meta'' meta_fields (Some (CoercePrimitive KString))
         [MatchIsEmpty, MatchIsNotEmpty, MatchIn, MatchNotIn]]"

definition service_meta :: "Value" where
  "service_meta = VMap (TBasic KString) [(PString ''env'', VPrim (PString ''prod''))]"

definition service :: "Value" where
  "service = VStruct [(''Meta'', service_meta)]"

definition meta_missing :: "MatchOperator \<Rightarrow> MatchExpr" where
  "meta_missing op =
     \<lparr>Selector = [''meta'', ''missing''], Operator = op,
      Value = Some \<lparr>Raw = ''x'', Converted = Some (PString ''x'')\<rparr>\<rparr>"

text \<open>
  A record whose fields \<^verbatim>\<open>Meta\<close> and \<^verbatim>\<open>Tags\<close> are maps with keys of the defined type
  \<^verbatim>\<open>type Key string\<close>, a \<^verbatim>\<open>map[Key]string\<close> and a \<^verbatim>\<open>map[Key][]string\<close> with the one key
  \<^verbatim>\<open>env\<close>; the field configurations of the record, and the match expressions
  \<^verbatim>\<open>tags.missing op\<close> with and without a value.
\<close>

definition key_type :: rtype where
  "key_type = TDefined (TBasic KString)"

definition keyed_type :: rtype where
  "keyed_type =
     TStruct [StructField ''Meta'' [] ''meta'' (TMap key_type (TBasic KString)),
              StructField ''Tags'' [] ''tags'' (TMap key_type (TSlice (TBasic KString)))]"

definition tags_fields :: FieldConfigurations where
  "tags_fields =
     Some ['''' \<mapsto> FieldConfiguration [] None (Some (CoercePrimitive KString))
                       [MatchIn, MatchNotIn, MatchIsEmpty, MatchIsNotEmpty]]"

definition keyed_fields :: FieldConfigurations where
  "keyed_fields =
     Some [''meta'' \<mapsto>
             FieldConfiguration ''Meta'' meta_fields (Some (CoercePrimitive KString))
               [MatchIsEmpty, MatchIsNotEmpty, MatchIn, MatchNotIn],
           ''tags'' \<mapsto>
             FieldConfiguration ''Tags'' tags_fields (Some (CoercePrimitive KString))
               [MatchIsEmpty, MatchIsNotEmpty, MatchIn, MatchNotIn]]"

definition keyed :: "Value" where
  "keyed =
     VStruct [(''Meta'', VMap key_type [(PString ''env'', VPrim (PString ''prod''))]),
              (''Tags'', VMap key_type
                 [(PString ''env'', VSlice (TBasic KString) [VPrim (PString ''a'')])])]"

definition tags_missing :: "MatchOperator \<Rightarrow> MatchValue option \<Rightarrow> MatchExpr" where
  "tags_missing op val = \<lparr>Selector = [''tags'', ''missing''], Operator = op, Value = val\<rparr>"

text \<open>
  A record type that implements \<^verbatim>\<open>ExpressionEvaluator\<close> with value receivers, its
  \<^verbatim>\<open>FieldConfigurations()\<close> returning the configurations of a person; a value of it, a
  pointer to that value and the \<^verbatim>\<open>nil\<close> pointer of the same type.
\<close>

definition evaluator_type :: rtype where
  "evaluator_type = TEvaluator person_fields (TStruct [])"

definition evaluator_value :: "Value" where
  "evaluator_value = VEvaluator (\<lambda>selector op val. Return True None) (VStruct [])"

definition evaluator_pointer :: "Value" where
  "evaluator_pointer =
     VEvaluator (\<lambda>selector op val. Return True None) (VPtr (Some evaluator_value))"

definition evaluator_nil :: "Value" where
  "evaluator_nil = VEvaluator (\<lambda>selector op val. Panic) (VPtr None)"

text \<open>
  A record whose field \<^verbatim>\<open>Users\<close> is a slice of pointers to records with a name, and the
  match expression \<^verbatim>\<open>users.name == "b"\<close>.
\<close>

definition user_type :: rtype where
  "user_type = TStruct [StructField ''Name'' [] ''name'' (TBasic KString)]"

definition team_type :: rtype where
  "team_type = TStruct [StructField ''Users'' [] ''users'' (TSlice (TPtr user_type))]"

definition user_fields :: FieldConfigurations where
  "user_fields =
     Some [''name'' \<mapsto> FieldConfiguration ''Name'' None (Some (CoercePrimitive KString))
                         [MatchEqual, MatchNotEqual]]"

definition team_fields :: FieldConfigurations where
  "team_fields =
     Some [''users'' \<mapsto>
       FieldConfiguration ''Users'' user_fields None [MatchIsEmpty, MatchIsNotEmpty]]"

definition user :: "string \<Rightarrow> Value" where
  "user n = VPtr (Some (VStruct [(''Name'', VPrim (PString n))]))"

definition users_name_is_b :: MatchExpr where
  "users_name_is_b =
     \<lparr>Selector = [''users'', ''name''], Operator = MatchEqual,
      Value = Some \<lparr>Raw = ''b'', Converted = Some (PString ''b'')\<rparr>\<rparr>"

definition team :: "Value list \<Rightarrow> Value" where
  "team members = VStruct [(''Users'', VSlice (TPtr user_type) members)]"

text \<open>
  The fields of a record type with an exported field annotated \<^verbatim>\<open>name,alias\<close>, an
  unexported field annotated \<^verbatim>\<open>secret\<close>, an exported field annotated \<^verbatim>\<open>-\<close> and an
  exported field without annotation, and the field configurations they derive to.
\<close>

definition account_fields :: "StructField list" where
  "account_fields =
     [StructField ''Name'' [] ''name,alias'' (TBasic KString),
      StructField ''secret'' ''main'' ''secret'' (TBasic KString),
      StructField ''Skipped'' [] ''-'' (TBasic KInt),
      StructField ''Age'' [] [] (TPtr (TBasic KInt))]"

definition account_configs :: "string \<Rightarrow> FieldConfiguration option" where
  "account_configs =
     [''name'' \<mapsto> FieldConfiguration ''Name'' None (Some (CoercePrimitive KString))
                       [MatchEqual, MatchNotEqual],
      ''alias'' \<mapsto> FieldConfiguration ''Name'' None (Some (CoercePrimitive KString))
                        [MatchEqual, MatchNotEqual],
      ''Age'' \<mapsto> FieldConfiguration ''Age'' None (Some (CoercePrimitive KInt))
                      [MatchEqual, MatchNotEqual]]"

section \<open>Evaluation of the examples\<close>

lemmas eval_defs =
  evaluateMatchExpression_def evaluateMatchExpressionRecurse.simps
  asEvaluator_def Indirect_def Interface_def Value_Kind_def FieldByName_def lookupField_def
  doMatchEqual_def doMatchIn_def doMatchIsEmpty_def getMatchExprValue_def
  primitiveEqualityFns_def doEqualString_def doEqualInt_def MapIndex_def assignable_def
  IsValid_def Len_def elements_def Type_Elem_def FieldNameAny_def

lemmas derive_defs =
  generateFieldConfigurationsAndType_def GenerateFieldConfigurations_def
  fieldNames_def setStructFieldName_def
  generateFieldConfigurationInternal.simps generateSliceFieldConfiguration.simps
  generateMapFieldConfiguration.simps generateStructFieldConfigurations.simps
  primitiveCoercionFns_def primitive_def nonEmpty_def CoerceString_def FieldNameAny_def
  callFieldConfigurations_def valueReceivers_def

lemma name_is_alice_person:
  "evaluate name_is_alice person person_fields = Return True None"
  by (simp add: name_is_alice_def person_def person_fields_def eval_defs)

lemma age_is_40_person:
  "evaluate age_is_40 person person_fields = Return False None"
  by (simp add: age_is_40_def person_def person_fields_def eval_defs)

lemma email_is_x_person:
  "evaluate email_is_x person person_fields = Panic"
  by (simp add: email_is_x_def person_def person_fields_def eval_defs)

lemma name_first_is_al_person:
  "evaluate name_first_is_al person person_fields =
     Return False (Some (ErrNoNestedSelection [''name''] (Basic KString)))"
  by (simp add: name_first_is_al_def person_def person_fields_def eval_defs)

text \<open>The field configurations of the examples are the ones their types derive to.\<close>

lemma person_fields_derived:
  "GenerateFieldConfigurations (Some (person_type, person)) = Return person_fields None"
  by (simp add: person_type_def person_fields_def derive_defs)

lemma service_fields_derived:
  "GenerateFieldConfigurations (Some (service_type, service)) = Return service_fields None"
  by (simp add: service_type_def service_fields_def meta_fields_def derive_defs)

lemma team_fields_derived:
  "GenerateFieldConfigurations (Some (team_type, team [])) = Return team_fields None"
  by (simp add: team_type_def user_type_def team_fields_def user_fields_def derive_defs)

lemma keyed_fields_derived:
  "GenerateFieldConfigurations (Some (keyed_type, keyed)) = Return keyed_fields None"
  by (simp add: keyed_type_def key_type_def keyed_fields_def meta_fields_def tags_fields_def
      derive_defs)

text \<open>
  A type that implements \<^verbatim>\<open>ExpressionEvaluator\<close> derives to the configurations its method
  returns, below the top level, at the top level and there behind a pointer as well.
\<close>

lemma evaluator_type_derived:
  "generateFieldConfigurationInternal evaluator_type =
     Return (Some (FieldConfiguration [] person_fields None [])) None"
  "generateFieldConfigurationsAndType (Some (evaluator_type, evaluator_value)) =
     Return (person_fields, evaluator_type) None"
  "generateFieldConfigurationsAndType (Some (TPtr evaluator_type, evaluator_pointer)) =
     Return (person_fields, evaluator_type) None"
  by (simp_all add: evaluator_type_def evaluator_value_def evaluator_pointer_def derive_defs)

text \<open>
  The derivation panics for a field whose type is an interface type with the two
  methods, and at the top level for a \<^verbatim>\<open>nil\<close> pointer to a type with value receivers.
\<close>

lemma evaluator_type_panics:
  "generateStructFieldConfigurations
     (TStruct [StructField ''Inner'' [] [] (TEvaluator person_fields (TBasic KInterface))]) =
     Panic"
  "generateFieldConfigurationsAndType (Some (TPtr evaluator_type, evaluator_nil)) = Panic"
  by (simp_all add: evaluator_type_def evaluator_nil_def derive_defs)

lemma account_configs_derived:
  "generateStructFieldConfigurations (TStruct account_fields) =
     Return (Some account_configs) None"
  by (simp add: account_fields_def account_configs_def derive_defs)

lemma meta_missing_service:
  "evaluate (MatchExpression (meta_missing MatchEqual)) service service_fields =
     Return False None"
  "evaluate (MatchExpression (meta_missing MatchNotEqual)) service service_fields =
     Return True None"
  by (simp_all add: meta_missing_def service_def service_meta_def service_fields_def
      meta_fields_def eval_defs)

lemma user_b: "evaluateMatchExpressionRecurse users_name_is_b 1 (Indirect (user ''b''))
     user_fields = Return True None"
  by (simp add: users_name_is_b_def user_def user_fields_def eval_defs)

lemma user_a: "evaluateMatchExpressionRecurse users_name_is_b 1 (Indirect (user ''a''))
     user_fields = Return False None"
  by (simp add: users_name_is_b_def user_def user_fields_def eval_defs)

lemma user_nil: "evaluateMatchExpressionRecurse users_name_is_b 1 (Indirect (VPtr None))
     user_fields =
       Return False (Some (ErrNoNestedSelection [''users''] KInvalid))"
  by (simp add: users_name_is_b_def user_fields_def eval_defs)

section \<open>Boolean connectives\<close>

text \<open>
  Claim C3. For an And node, when the left operand returns false or an error, that
  result (the boolean and the error) is the node's result, whatever the right operand
  is; otherwise the node's result is the right operand's. For an Or node the same holds
  with true in place of false. That the right operand is not evaluated shows in the
  result not depending on it: the node returns even where the right operand panics.
\<close>

theorem and_or_short_circuit:
  "evaluate left datum fields' = Return result err \<Longrightarrow>
     evaluate (BinaryExpr left BinaryOpAnd right) datum fields' =
       (if err \<noteq> None \<or> \<not> result then Return result err else evaluate right datum fields')
     \<and> evaluate (BinaryExpr left BinaryOpOr right) datum fields' =
       (if err \<noteq> None \<or> result then Return result err else evaluate right datum fields')"
  by simp

text \<open>
  The right operand \<open>email_is_x\<close> panics when evaluated; the And and the Or nodes that
  stop at their left operand return.
\<close>

theorem and_or_short_circuit_witness:
  "evaluate email_is_x person person_fields = Panic
   \<and> evaluate (BinaryExpr age_is_40 BinaryOpAnd email_is_x) person person_fields =
       Return False None
   \<and> evaluate (BinaryExpr name_is_alice BinaryOpOr email_is_x) person person_fields =
       Return True None
   \<and> evaluate (BinaryExpr name_first_is_al BinaryOpAnd email_is_x) person person_fields =
       Return False (Some (ErrNoNestedSelection [''name''] (Basic KString)))
   \<and> evaluate (BinaryExpr name_is_alice BinaryOpAnd age_is_40) person person_fields =
       Return False None"
  using and_or_short_circuit [OF age_is_40_person, of email_is_x]
    and_or_short_circuit [OF name_is_alice_person, of email_is_x]
    and_or_short_circuit [OF name_first_is_al_person, of email_is_x]
    and_or_short_circuit [OF name_is_alice_person, of age_is_40]
  by (simp add: email_is_x_person age_is_40_person)

text \<open>
  Claim C6. For a Not node, an operand that returns without error has its boolean
  negated; an operand that returns an error has that same error returned. The source
  returns \<^verbatim>\<open>!result, err\<close>, so the boolean beside an error is the negation of the boolean
  the operand returned beside it, not of an answer.
\<close>

theorem not_negates:
  "evaluate operand datum fields' = Return result err \<Longrightarrow>
     evaluate (UnaryExpr UnaryOpNot operand) datum fields' = Return (\<not> result) err"
  by simp

theorem not_negates_witness:
  "evaluate (UnaryExpr UnaryOpNot name_is_alice) person person_fields = Return False None
   \<and> evaluate (UnaryExpr UnaryOpNot age_is_40) person person_fields = Return True None
   \<and> evaluate (UnaryExpr UnaryOpNot name_first_is_al) person person_fields =
       Return True (Some (ErrNoNestedSelection [''name''] (Basic KString)))"
  using not_negates [OF name_is_alice_person] not_negates [OF age_is_40_person]
    not_negates [OF name_first_is_al_person]
  by simp

text \<open>
  Claim C7. Not(And(a, b)) and Or(Not(a), Not(b)) have the same outcome on every datum
  (the same boolean and error, or both panic), and so have Not(Or(a, b)) and
  And(Not(a), Not(b)); no assumption on \<open>a\<close> and \<open>b\<close> is needed.
\<close>

theorem de_morgan:
  "evaluate (UnaryExpr UnaryOpNot (BinaryExpr a BinaryOpAnd b)) datum fields' =
     evaluate (BinaryExpr (UnaryExpr UnaryOpNot a) BinaryOpOr (UnaryExpr UnaryOpNot b)) datum fields'
   \<and> evaluate (UnaryExpr UnaryOpNot (BinaryExpr a BinaryOpOr b)) datum fields' =
     evaluate (BinaryExpr (UnaryExpr UnaryOpNot a) BinaryOpAnd (UnaryExpr UnaryOpNot b)) datum fields'"
  by (cases "evaluate a datum fields'"; cases "evaluate b datum fields'") auto

theorem de_morgan_witness:
  "evaluate (UnaryExpr UnaryOpNot (BinaryExpr name_is_alice BinaryOpAnd age_is_40))
     person person_fields = Return True None
   \<and> evaluate (BinaryExpr (UnaryExpr UnaryOpNot name_is_alice) BinaryOpOr
                 (UnaryExpr UnaryOpNot age_is_40)) person person_fields = Return True None
   \<and> evaluate (UnaryExpr UnaryOpNot (BinaryExpr name_first_is_al BinaryOpOr age_is_40))
       person person_fields =
     Return True (Some (ErrNoNestedSelection [''name''] (Basic KString)))
   \<and> evaluate (BinaryExpr (UnaryExpr UnaryOpNot name_first_is_al) BinaryOpAnd
                 (UnaryExpr UnaryOpNot age_is_40)) person person_fields =
     Return True (Some (ErrNoNestedSelection [''name''] (Basic KString)))"
  using de_morgan [of name_is_alice age_is_40 person person_fields]
    de_morgan [of name_first_is_al age_is_40 person person_fields]
  by (simp add: name_is_alice_person age_is_40_person name_first_is_al_person)

section \<open>Match operators at the end of the selector\<close>

lemma getMatchExprValue_Operator:
  "getMatchExprValue (e\<lparr>Operator := op\<rparr>) = getMatchExprValue e"
  by (simp add: getMatchExprValue_def)

lemma doMatchEqual_Operator:
  "doMatchEqual (e\<lparr>Operator := op\<rparr>) v = doMatchEqual e v"
  unfolding doMatchEqual_def getMatchExprValue_Operator ..

lemma Selector_Operator: "Selector (e\<lparr>Operator := op\<rparr>) = Selector e"
  by simp

lemma doMatchIn_Operator:
  "doMatchIn (e\<lparr>Operator := op\<rparr>) v = doMatchIn e v"
  unfolding doMatchIn_def getMatchExprValue_Operator Selector_Operator ..

lemma doMatchIsEmpty_Operator:
  "doMatchIsEmpty (e\<lparr>Operator := op\<rparr>) v = doMatchIsEmpty e v"
  by (simp add: doMatchIsEmpty_def)

lemma terminal_operator:
  "length (Selector e) \<le> depth \<Longrightarrow>
     evaluateMatchExpressionRecurse e depth v f =
       (case Operator e of
          MatchEqual \<Rightarrow> doMatchEqual e v
        | MatchNotEqual \<Rightarrow>
            (case doMatchEqual e v of
               Panic \<Rightarrow> Panic
             | Return result None \<Rightarrow> Return (\<not> result) None
             | Return result (Some err) \<Rightarrow> Return False (Some err))
        | MatchIn \<Rightarrow> doMatchIn e v
        | MatchNotIn \<Rightarrow>
            (case doMatchIn e v of
               Panic \<Rightarrow> Panic
             | Return result None \<Rightarrow> Return (\<not> result) None
             | Return result (Some err) \<Rightarrow> Return False (Some err))
        | MatchIsEmpty \<Rightarrow> doMatchIsEmpty e v
        | MatchIsNotEmpty \<Rightarrow>
            (case doMatchIsEmpty e v of
               Panic \<Rightarrow> Panic
             | Return result None \<Rightarrow> Return (\<not> result) None
             | Return result (Some err) \<Rightarrow> Return False (Some err))
        | MatchOperatorOther \<Rightarrow> Return False (Some (ErrInvalidMatchOperation (Operator e))))"
  by (subst evaluateMatchExpressionRecurse.simps) simp

text \<open>
  Claim C9. Once the selector is used up, MatchNotEqual returns what MatchEqual returns
  on the same expression and value with the boolean negated when there is no error, and
  \<^verbatim>\<open>false\<close> with the same error otherwise; where MatchEqual panics, so does
  MatchNotEqual. The same relation holds between MatchNotIn and MatchIn and between
  MatchIsNotEmpty and MatchIsEmpty.
\<close>

theorem negated_operators:
  "length (Selector e) \<le> depth \<Longrightarrow>
     evaluateMatchExpressionRecurse (e\<lparr>Operator := MatchNotEqual\<rparr>) depth v f =
       negated (evaluateMatchExpressionRecurse (e\<lparr>Operator := MatchEqual\<rparr>) depth v f)
     \<and> evaluateMatchExpressionRecurse (e\<lparr>Operator := MatchNotIn\<rparr>) depth v f =
       negated (evaluateMatchExpressionRecurse (e\<lparr>Operator := MatchIn\<rparr>) depth v f)
     \<and> evaluateMatchExpressionRecurse (e\<lparr>Operator := MatchIsNotEmpty\<rparr>) depth v f =
       negated (evaluateMatchExpressionRecurse (e\<lparr>Operator := MatchIsEmpty\<rparr>) depth v f)"
  by (simp add: terminal_operator negated_def doMatchEqual_Operator doMatchIn_Operator
      doMatchIsEmpty_Operator)

theorem negated_operators_witness:
  "length (Selector (meta_missing MatchEqual)) \<le> 2
   \<and> evaluateMatchExpressionRecurse (meta_missing MatchEqual) 2 (VPrim (PString ''x'')) None =
       Return True None
   \<and> evaluateMatchExpressionRecurse (meta_missing MatchNotEqual) 2 (VPrim (PString ''x'')) None =
       Return False None
   \<and> evaluateMatchExpressionRecurse (meta_missing MatchIn) 2 (VPrim (PInt 7)) None =
       Return False (Some (ErrCannotPerformIn (Basic KInt) [''meta'', ''missing'']))
   \<and> evaluateMatchExpressionRecurse (meta_missing MatchNotIn) 2 (VPrim (PInt 7)) None =
       Return False (Some (ErrCannotPerformIn (Basic KInt) [''meta'', ''missing'']))
   \<and> evaluateMatchExpressionRecurse (meta_missing MatchIsEmpty) 2 (VPrim (PString ''x'')) None =
       Return False None
   \<and> evaluateMatchExpressionRecurse (meta_missing MatchIsNotEmpty) 2 (VPrim (PString ''x'')) None =
       Return True None"
proof -
  have len: "length (Selector (meta_missing MatchEqual)) \<le> 2"
    by (simp add: meta_missing_def)
  have op: "(meta_missing MatchEqual)\<lparr>Operator := op\<rparr> = meta_missing op" for op
    by (simp add: meta_missing_def)
  have eq: "evaluateMatchExpressionRecurse (meta_missing MatchEqual) 2 (VPrim (PString ''x'')) None =
       Return True None"
    by (simp add: meta_missing_def eval_defs)
  have isin: "evaluateMatchExpressionRecurse (meta_missing MatchIn) 2 (VPrim (PInt 7)) None =
       Return False (Some (ErrCannotPerformIn (Basic KInt) [''meta'', ''missing'']))"
    by (simp add: meta_missing_def eval_defs)
  have empty: "evaluateMatchExpressionRecurse (meta_missing MatchIsEmpty) 2 (VPrim (PString ''x'')) None =
       Return False None"
    by (simp add: meta_missing_def eval_defs)
  show ?thesis
    using negated_operators [OF len, of "VPrim (PString ''x'')" None]
      negated_operators [OF len, of "VPrim (PInt 7)" None] len eq isin empty
    by (simp add: op negated_def)
qed

section \<open>A selector step into a map\<close>

lemma map_absent_key:
  assumes "depth < length (Selector e)"
    and "unwrap rvalue = VMap (TBasic KString) entries"
    and "map_of entries (PString (Selector e ! depth)) = None"
  shows "evaluateMatchExpressionRecurse e depth rvalue f =
     (case Operator e of
        MatchEqual \<Rightarrow> Return False None
      | MatchIsNotEmpty \<Rightarrow> Return False None
      | MatchIn \<Rightarrow> Return False None
      | _ \<Rightarrow> Return True None)"
  using assms
  by (subst evaluateMatchExpressionRecurse.simps)
     (simp add: Value_Kind_def MapIndex_def assignable_def Indirect_def IsValid_def)

text \<open>
  The absent-key answers on a map whose key type is \<^verbatim>\<open>string\<close> itself: at a selector step
  that is not the last, when the map has no entry for the name at that step, evaluation
  returns \<^verbatim>\<open>false\<close> without error for MatchEqual, MatchIn and MatchIsNotEmpty, and \<^verbatim>\<open>true\<close>
  without error for MatchNotEqual, MatchNotIn and MatchIsEmpty.
\<close>

theorem absent_key:
  assumes "depth < length (Selector e)"
    and "unwrap rvalue = VMap (TBasic KString) entries"
    and "map_of entries (PString (Selector e ! depth)) = None"
  shows "(Operator e \<in> {MatchEqual, MatchIn, MatchIsNotEmpty} \<longrightarrow>
            evaluateMatchExpressionRecurse e depth rvalue f = Return False None)
       \<and> (Operator e \<in> {MatchNotEqual, MatchNotIn, MatchIsEmpty} \<longrightarrow>
            evaluateMatchExpressionRecurse e depth rvalue f = Return True None)"
  using map_absent_key [OF assms, of f] by (cases "Operator e") simp_all

theorem absent_key_witness:
  "1 < length (Selector (meta_missing MatchEqual))
   \<and> unwrap service_meta = VMap (TBasic KString) [(PString ''env'', VPrim (PString ''prod''))]
   \<and> map_of [(PString ''env'', VPrim (PString ''prod''))]
         (PString (Selector (meta_missing MatchEqual) ! 1)) = None
   \<and> evaluateMatchExpressionRecurse (meta_missing MatchEqual) 1 service_meta
         meta_fields = Return False None
   \<and> evaluateMatchExpressionRecurse (meta_missing MatchNotEqual) 1 service_meta
         meta_fields = Return True None
   \<and> evaluateMatchExpressionRecurse (meta_missing MatchIsEmpty) 1 service_meta
         meta_fields = Return True None"
proof -
  have len: "1 < length (Selector (meta_missing op))" for op
    by (simp add: meta_missing_def)
  have m: "unwrap service_meta = VMap (TBasic KString) [(PString ''env'', VPrim (PString ''prod''))]"
    by (simp add: service_meta_def)
  have absent: "map_of [(PString ''env'', VPrim (PString ''prod''))]
         (PString (Selector (meta_missing op) ! 1)) = None" for op
    by (simp add: meta_missing_def)
  have op: "Operator (meta_missing op) = op" for op
    by (simp add: meta_missing_def)
  show ?thesis
    using absent_key [OF len m absent, of MatchEqual]
      absent_key [OF len m absent, of MatchNotEqual]
      absent_key [OF len m absent, of MatchIsEmpty] len [of MatchEqual] m absent [of MatchEqual]
    by (simp add: op)
qed

text \<open>
  The key type of the map matters before its entries do: \<^verbatim>\<open>MapIndex\<close> is called with a
  key of type \<^verbatim>\<open>string\<close>, and panics on a map whose key type is a defined type with
  underlying type \<^verbatim>\<open>string\<close>, whatever the operator and the entries.
\<close>

lemma map_defined_key_type:
  assumes "depth < length (Selector e)"
    and "unwrap rvalue = VMap (TDefined (TBasic KString)) entries"
  shows "evaluateMatchExpressionRecurse e depth rvalue f = Panic"
  using assms
  by (subst evaluateMatchExpressionRecurse.simps)
     (simp add: Value_Kind_def MapIndex_def assignable_def)

text \<open>
  Claim C1. The claim has the absent-key answers for every validated expression that
  selects into a map. The deriver asks a map's key type for its kind only, so that the
  maps keyed by \<^verbatim>\<open>type Key string\<close> derive to the field configurations of maps keyed by
  \<^verbatim>\<open>string\<close>: equality below \<^verbatim>\<open>meta\<close>, membership and emptiness below \<^verbatim>\<open>tags\<close>. The
  evaluator indexes the map with a key of type \<^verbatim>\<open>string\<close>, which is not assignable to
  \<^verbatim>\<open>Key\<close>: each of the six expressions at the absent key \<^verbatim>\<open>missing\<close> panics, where the
  third and fourth precondition in the source have validated expressions index maps
  with keys of type \<^verbatim>\<open>string\<close> and never panic. On the same data keyed by \<^verbatim>\<open>string\<close> the
  answers are the ones of \<open>absent_key\<close>.
\<close>

theorem absent_key_defined_key_type_panics:
  "GenerateFieldConfigurations (Some (keyed_type, keyed)) = Return keyed_fields None
   \<and> evaluate (MatchExpression (meta_missing MatchEqual)) keyed keyed_fields = Panic
   \<and> evaluate (MatchExpression (meta_missing MatchNotEqual)) keyed keyed_fields = Panic
   \<and> evaluate (MatchExpression
        (tags_missing MatchIn (Some \<lparr>Raw = ''x'', Converted = Some (PString ''x'')\<rparr>)))
        keyed keyed_fields = Panic
   \<and> evaluate (MatchExpression
        (tags_missing MatchNotIn (Some \<lparr>Raw = ''x'', Converted = Some (PString ''x'')\<rparr>)))
        keyed keyed_fields = Panic
   \<and> evaluate (MatchExpression (tags_missing MatchIsEmpty None)) keyed keyed_fields = Panic
   \<and> evaluate (MatchExpression (tags_missing MatchIsNotEmpty None)) keyed keyed_fields = Panic"
proof -
  have meta: "evaluate (MatchExpression (meta_missing op)) keyed keyed_fields = Panic" for op
    by (simp add: meta_missing_def keyed_def key_type_def keyed_fields_def eval_defs)
  have tags: "evaluate (MatchExpression (tags_missing op val)) keyed keyed_fields = Panic"
    for op val
    by (simp add: tags_missing_def keyed_def key_type_def keyed_fields_def eval_defs)
  from keyed_fields_derived meta tags show ?thesis
    by simp
qed

section \<open>A selector step through a slice or array\<close>

lemma list_case:
  assumes "depth < length (Selector e)"
    and "Value_Kind rvalue = KSlice \<or> Value_Kind rvalue = KArray"
  shows "evaluateMatchExpressionRecurse e depth rvalue f =
           evaluateMatchExpressionRecurse_loop e depth (elements rvalue) f"
  using assms by (subst evaluateMatchExpressionRecurse.simps) auto

lemma first_split_Cons:
  "(\<exists>before item after. a # items = before @ item # after \<and> (\<forall>x \<in> set before. Q x) \<and> R item)
     \<longleftrightarrow>
   R a \<or> (Q a \<and> (\<exists>before item after. items = before @ item # after
                     \<and> (\<forall>x \<in> set before. Q x) \<and> R item))"
  (is "?L \<longleftrightarrow> ?R")
proof
  assume ?L
  then obtain before item after
    where eq: "a # items = before @ item # after"
      and q: "\<forall>x \<in> set before. Q x" and r: "R item"
    by blast
  show ?R
  proof (cases before)
    case Nil
    with eq r show ?thesis by simp
  next
    case (Cons b bs)
    with eq have "a = b" and "items = bs @ item # after" by simp_all
    with q r Cons show ?thesis by auto
  qed
next
  assume ?R
  then show ?L
  proof
    assume "R a"
    then have "a # items = [] @ a # items \<and> (\<forall>x \<in> set []. Q x) \<and> R a" by simp
    then show ?thesis by blast
  next
    assume "Q a \<and> (\<exists>before item after. items = before @ item # after
                     \<and> (\<forall>x \<in> set before. Q x) \<and> R item)"
    then obtain before item after
      where "Q a" and "items = before @ item # after"
        and "\<forall>x \<in> set before. Q x" and "R item"
      by blast
    then have "a # items = (a # before) @ item # after
        \<and> (\<forall>x \<in> set (a # before). Q x) \<and> R item"
      by simp
    then show ?thesis by blast
  qed
qed

lemma loop_True:
  "evaluateMatchExpressionRecurse_loop e depth items f = Return True None \<longleftrightarrow>
     (\<exists>before item after. items = before @ item # after
        \<and> (\<forall>x \<in> set before.
              evaluateMatchExpressionRecurse e depth (Indirect x) f = Return False None)
        \<and> evaluateMatchExpressionRecurse e depth (Indirect item) f = Return True None)"
proof (induction items)
  case Nil
  show ?case by simp
next
  case (Cons a items)
  show ?case
    unfolding first_split_Cons using Cons
    by (simp split: res.splits option.splits)
qed

lemma loop_error:
  "evaluateMatchExpressionRecurse_loop e depth items f = Return result (Some err) \<longleftrightarrow>
     \<not> result \<and>
     (\<exists>before item after. items = before @ item # after
        \<and> (\<forall>x \<in> set before.
              evaluateMatchExpressionRecurse e depth (Indirect x) f = Return False None)
        \<and> (\<exists>b. evaluateMatchExpressionRecurse e depth (Indirect item) f = Return b (Some err)))"
proof (induction items)
  case Nil
  show ?case by simp
next
  case (Cons a items)
  show ?case
    unfolding first_split_Cons using Cons
    by (auto split: res.splits option.splits)
qed

lemma loop_False:
  "evaluateMatchExpressionRecurse_loop e depth items f = Return False None \<longleftrightarrow>
     (\<forall>x \<in> set items.
        evaluateMatchExpressionRecurse e depth (Indirect x) f = Return False None)"
  by (induction items) (auto split: res.splits option.splits)

lemma loop_Panic:
  "evaluateMatchExpressionRecurse_loop e depth items f = Panic \<longleftrightarrow>
     (\<exists>before item after. items = before @ item # after
        \<and> (\<forall>x \<in> set before.
              evaluateMatchExpressionRecurse e depth (Indirect x) f = Return False None)
        \<and> evaluateMatchExpressionRecurse e depth (Indirect item) f = Panic)"
proof (induction items)
  case Nil
  show ?case by simp
next
  case (Cons a items)
  show ?case
    unfolding first_split_Cons using Cons
    by (simp split: res.splits option.splits)
qed

text \<open>
  Claim C2, as amended. At a selector step that is not the last, on a slice or array,
  evaluation visits the elements in order at the same depth. It returns \<^verbatim>\<open>true\<close> exactly
  when some element evaluates to \<^verbatim>\<open>true\<close> and every element before it evaluated to
  \<^verbatim>\<open>false\<close> without error; it returns \<^verbatim>\<open>false\<close> with an error exactly when some element
  returns that error and every element before it evaluated to \<^verbatim>\<open>false\<close> without error; it
  returns \<^verbatim>\<open>false\<close> without error exactly when every element does.
\<close>

theorem list_existential:
  assumes "depth < length (Selector e)"
    and "Value_Kind rvalue = KSlice \<or> Value_Kind rvalue = KArray"
  shows "(evaluateMatchExpressionRecurse e depth rvalue f = Return True None \<longleftrightarrow>
           (\<exists>before item after. elements rvalue = before @ item # after
              \<and> (\<forall>x \<in> set before.
                    evaluateMatchExpressionRecurse e depth (Indirect x) f = Return False None)
              \<and> evaluateMatchExpressionRecurse e depth (Indirect item) f = Return True None))
       \<and> (evaluateMatchExpressionRecurse e depth rvalue f = Return result (Some err) \<longleftrightarrow>
           \<not> result \<and>
           (\<exists>before item after. elements rvalue = before @ item # after
              \<and> (\<forall>x \<in> set before.
                    evaluateMatchExpressionRecurse e depth (Indirect x) f = Return False None)
              \<and> (\<exists>b. evaluateMatchExpressionRecurse e depth (Indirect item) f =
                        Return b (Some err))))
       \<and> (evaluateMatchExpressionRecurse e depth rvalue f = Return False None \<longleftrightarrow>
           (\<forall>x \<in> set (elements rvalue).
              evaluateMatchExpressionRecurse e depth (Indirect x) f = Return False None))"
  unfolding list_case [OF assms] loop_True loop_error loop_False by simp

theorem list_existential_witness:
  "1 < length (Selector users_name_is_b)
   \<and> Value_Kind (VSlice (TPtr user_type) [user ''a'', user ''b'']) = KSlice
   \<and> evaluateMatchExpressionRecurse users_name_is_b 1
         (VSlice (TPtr user_type) [user ''a'', user ''b''])
         user_fields = Return True None
   \<and> evaluateMatchExpressionRecurse users_name_is_b 1
         (VSlice (TPtr user_type) [user ''a'', VPtr None, user ''b''])
         user_fields =
       Return False (Some (ErrNoNestedSelection [''users''] KInvalid))"
proof -
  let ?f = "user_fields"
  let ?err = "ErrNoNestedSelection [''users''] KInvalid"
  have len: "1 < length (Selector users_name_is_b)"
    by (simp add: users_name_is_b_def)
  have kind: "Value_Kind (VSlice (TPtr user_type) xs) = KSlice \<or>
      Value_Kind (VSlice (TPtr user_type) xs) = KArray" for xs
    by (simp add: Value_Kind_def)
  have els: "elements (VSlice (TPtr user_type) xs) = xs" for xs
    by (simp add: elements_def)
  note ab = list_existential [OF len kind, of "[user ''a'', user ''b'']" ?f, unfolded els]
  have found: "evaluateMatchExpressionRecurse users_name_is_b 1
      (VSlice (TPtr user_type) [user ''a'', user ''b'']) ?f = Return True None"
    apply (rule iffD2 [OF conjunct1 [OF ab]])
    apply (rule exI [of _ "[user ''a'']"])
    apply (rule exI [of _ "user ''b''"])
    apply (rule exI [of _ "[]"])
    apply (insert user_a user_b)
    apply simp
    done
  note anb = list_existential [OF len kind, of "[user ''a'', VPtr None, user ''b'']" ?f
      False ?err, unfolded els]
  have failed: "evaluateMatchExpressionRecurse users_name_is_b 1
      (VSlice (TPtr user_type) [user ''a'', VPtr None, user ''b'']) ?f =
        Return False (Some ?err)"
    apply (rule iffD2 [OF conjunct1 [OF conjunct2 [OF anb]]])
    apply (rule conjI)
     apply simp
    apply (rule exI [of _ "[user ''a'']"])
    apply (rule exI [of _ "VPtr None"])
    apply (rule exI [of _ "[user ''b'']"])
    apply (insert user_a user_nil)
    apply auto
    done
  from found failed len show ?thesis by (simp add: Value_Kind_def)
qed

text \<open>
  Claim C2 as first stated, that the match holds on the list if and only if it holds
  on some element, fails where an element before the matching one returns an error: the
  first element of this slice is a \<^verbatim>\<open>nil\<close> pointer, the second one matches, and the slice
  evaluates to the error of the first.
\<close>

theorem list_existential_counterexample:
  "Value_Kind (VSlice (TPtr user_type) [VPtr None, user ''b'']) = KSlice
   \<and> elements (VSlice (TPtr user_type) [VPtr None, user ''b'']) = [VPtr None, user ''b'']
   \<and> evaluateMatchExpressionRecurse users_name_is_b 1 (Indirect (user ''b''))
         user_fields = Return True None
   \<and> evaluateMatchExpressionRecurse users_name_is_b 1
         (VSlice (TPtr user_type) [VPtr None, user ''b''])
         user_fields =
       Return False (Some (ErrNoNestedSelection [''users''] KInvalid))
   \<and> evaluate (MatchExpression users_name_is_b) (team [VPtr None, user ''b'']) team_fields =
       Return False (Some (ErrNoNestedSelection [''users''] KInvalid))"
  by (simp add: users_name_is_b_def user_def team_def team_fields_def user_fields_def
      eval_defs)

section \<open>Schema derivation from the top-level type\<close>

lemma Key_of_map: "Type_Kind t = KMap \<Longrightarrow> \<exists>k. Key t = Some k"
  by (induction t) auto

lemma Elem_of_map: "Type_Kind t = KMap \<Longrightarrow> \<exists>e. Elem t = Some e"
  by (induction t) auto

lemma unsupported_kind:
  assumes "Implements u = None" and "Type_Kind u = Basic b" and "\<not> primitive b"
  shows "generateFieldConfigurationInternal u = Return None None"
  using assms
  by (subst generateFieldConfigurationInternal.simps) (simp add: primitiveCoercionFns_def)

text \<open>
  Claim C8. Derivation from a top-level type returns without error only when the type
  implements \<^verbatim>\<open>ExpressionEvaluator\<close> or, with its pointers removed, is a struct or a map
  whose key kind is String. For every other type it returns no field configurations and
  an error: the one for maps whose keys are not strings when the type is a map, the one
  for an invalid top-level type otherwise.
\<close>

theorem top_level_type:
  "(generateFieldConfigurationsAndType (Some (t, v)) = Return (fs, rt) None \<longrightarrow>
      Implements t \<noteq> None \<or> Type_Kind (derefType t) = KStruct \<or>
      (Type_Kind (derefType t) = KMap \<and>
       map_option Type_Kind (Key (derefType t)) = Some (Basic KString)))
   \<and> (Implements t = None \<longrightarrow> Type_Kind (derefType t) \<noteq> KStruct \<longrightarrow>
      \<not> (Type_Kind (derefType t) = KMap \<and>
         map_option Type_Kind (Key (derefType t)) = Some (Basic KString)) \<longrightarrow>
      generateFieldConfigurationsAndType (Some (t, v)) =
        Return (None, derefType t)
          (Some (if Type_Kind (derefType t) = KMap then ErrMapKeysNotStrings
                 else ErrInvalidTopLevelType)))"
proof (cases "Implements t")
  case (Some configs)
  then show ?thesis by simp
next
  case None
  show ?thesis
  proof (cases "Type_Kind (derefType t) = KMap")
    case True
    then obtain k where k: "Key (derefType t) = Some k"
      using Key_of_map by blast
    with None True show ?thesis
      by (auto simp: generateFieldConfigurationsAndType_def Let_def
          split: option.splits res.splits if_splits)
  next
    case False
    with None show ?thesis
      by (cases "Type_Kind (derefType t)")
         (simp_all add: generateFieldConfigurationsAndType_def)
  qed
qed

theorem top_level_type_witness:
  "generateFieldConfigurationsAndType (Some (TBasic KInt, VPrim (PInt 7))) =
     Return (None, TBasic KInt) (Some ErrInvalidTopLevelType)
   \<and> generateFieldConfigurationsAndType
        (Some (TSlice (TBasic KString), VSlice (TBasic KString) [])) =
     Return (None, TSlice (TBasic KString)) (Some ErrInvalidTopLevelType)
   \<and> generateFieldConfigurationsAndType
        (Some (TPtr (TMap (TBasic KInt) (TBasic KString)), VPtr None)) =
     Return (None, TMap (TBasic KInt) (TBasic KString)) (Some ErrMapKeysNotStrings)
   \<and> generateFieldConfigurationsAndType (Some (TPtr (TStruct account_fields), VPtr None)) =
     Return (Some account_configs, TStruct account_fields) None
   \<and> Type_Kind (derefType (TPtr (TStruct account_fields))) = KStruct"
proof -
  have ok: "generateFieldConfigurationsAndType
       (Some (TPtr (TStruct account_fields), VPtr None)) =
     Return (Some account_configs, TStruct account_fields) None"
    by (simp add: generateFieldConfigurationsAndType_def account_configs_derived)
  from top_level_type [of "TBasic KInt" "VPrim (PInt 7)"]
    top_level_type [of "TSlice (TBasic KString)" "VSlice (TBasic KString) []"]
    top_level_type [of "TPtr (TMap (TBasic KInt) (TBasic KString))" "VPtr None"]
    top_level_type [of "TPtr (TStruct account_fields)" "VPtr None" "Some account_configs"
      "TStruct account_fields"] ok
  show ?thesis by simp
qed

text \<open>
  Claim C10. For a top-level map with keys of kind String whose element type derives to
  the \<^verbatim>\<open>nil\<close> configuration, derivation returns the \<^verbatim>\<open>nil\<close> map of field configurations
  and the \<^verbatim>\<open>nil\<close> error.
\<close>

theorem top_level_map_of_unsupported:
  assumes "Implements t = None"
    and "Type_Kind (derefType t) = KMap"
    and "Key (derefType t) = Some k" and "Type_Kind k = Basic KString"
    and "Elem (derefType t) = Some e"
    and "generateFieldConfigurationInternal (derefType e) = Return None None"
  shows "generateFieldConfigurationsAndType (Some (t, v)) = Return (None, derefType t) None
       \<and> GenerateFieldConfigurations (Some (t, v)) = Return None None"
  using assms
  by (simp add: generateFieldConfigurationsAndType_def GenerateFieldConfigurations_def)

text \<open>The element type \<^verbatim>\<open>interface{}\<close> is of such a kind.\<close>

theorem top_level_map_of_unsupported_witness:
  "Implements (TMap (TBasic KString) (TBasic KInterface)) = None
   \<and> Type_Kind (derefType (TMap (TBasic KString) (TBasic KInterface))) = KMap
   \<and> Key (derefType (TMap (TBasic KString) (TBasic KInterface))) = Some (TBasic KString)
   \<and> Elem (derefType (TMap (TBasic KString) (TBasic KInterface))) = Some (TBasic KInterface)
   \<and> generateFieldConfigurationInternal (derefType (TBasic KInterface)) = Return None None
   \<and> generateFieldConfigurationsAndType
        (Some (TMap (TBasic KString) (TBasic KInterface), VMap (TBasic KString) [])) =
       Return (None, TMap (TBasic KString) (TBasic KInterface)) None
   \<and> GenerateFieldConfigurations
        (Some (TMap (TBasic KString) (TBasic KInterface), VMap (TBasic KString) [])) =
       Return None None"
proof -
  have null: "generateFieldConfigurationInternal (derefType (TBasic KInterface)) =
      Return None None"
    by (simp add: unsupported_kind primitive_def)
  from top_level_map_of_unsupported [of "TMap (TBasic KString) (TBasic KInterface)"
      "TBasic KString" "TBasic KInterface" "VMap (TBasic KString) []"] null
  show ?thesis by simp
qed

section \<open>Schema derivation for the fields of a struct\<close>

lemma Split_nonempty: "Split s sep \<noteq> []"
  by (induction s) (auto split: list.splits)

lemma fieldNames_cases:
  "fieldNames field =
     (if bexprTag field = [] then Some [Name field]
      else if hd (Split (bexprTag field) CHR '','') = ''-'' then None
      else Some (Split (bexprTag field) CHR '',''))"
  using Split_nonempty [of "bexprTag field" "CHR '',''"]
  by (auto simp: fieldNames_def Let_def hd_conv_nth)

lemma foldl_upd_notin:
  "n \<notin> set names \<Longrightarrow> foldl (\<lambda>m name. m(name \<mapsto> v)) acc names n = acc n"
  by (induction names arbitrary: acc) auto

lemma foldl_upd_in:
  "n \<in> set names \<Longrightarrow> foldl (\<lambda>m name. m(name \<mapsto> v)) acc names n = Some v"
proof (induction names arbitrary: acc)
  case Nil
  then show ?case by simp
next
  case (Cons a names)
  have step: "foldl (\<lambda>m name. m(name \<mapsto> v)) acc (a # names) n =
      foldl (\<lambda>m name. m(name \<mapsto> v)) (acc(a \<mapsto> v)) names n"
    by (simp only: foldl_Cons)
  show ?case
  proof (cases "n \<in> set names")
    case True
    from Cons.IH [OF True] step show ?thesis by (simp only:)
  next
    case False
    with Cons.prems have "n = a" by simp
    from False
    have "foldl (\<lambda>m name. m(name \<mapsto> v)) (acc(a \<mapsto> v)) names n = (acc(a \<mapsto> v)) n"
      by (rule foldl_upd_notin)
    also have "\<dots> = Some v" using \<open>n = a\<close> by (simp only: fun_upd_same)
    finally show ?thesis using step by (simp only:)
  qed
qed

lemma loop_skip:
  "PkgPath field \<noteq> [] \<or> fieldNames field = None \<Longrightarrow>
     generateStructFieldConfigurations_loop (field # rest) acc =
       generateStructFieldConfigurations_loop rest acc"
  by auto

lemma loop_step:
  assumes "generateStructFieldConfigurations_loop (field # rest) acc = Return (Some m) None"
    and "PkgPath field = []" and "fieldNames field = Some names"
  obtains cfg where
    "generateFieldConfigurationInternal (derefType (Type field)) = Return (Some cfg) None"
    and "generateStructFieldConfigurations_loop rest
           (foldl (\<lambda>m name. m(name \<mapsto> setStructFieldName cfg (Name field))) acc names) =
         Return (Some m) None"
  using assms by (auto split: res.splits option.splits)

lemma loop_frame:
  "generateStructFieldConfigurations_loop fs acc = Return (Some m) None \<Longrightarrow>
   (\<forall>g \<in> set fs. PkgPath g = [] \<longrightarrow> (\<forall>ns. fieldNames g = Some ns \<longrightarrow> n \<notin> set ns)) \<Longrightarrow>
   m n = acc n"
proof (induction fs arbitrary: acc)
  case Nil
  then show ?case by simp
next
  case (Cons field rest)
  show ?case
  proof (cases "PkgPath field \<noteq> [] \<or> fieldNames field = None")
    case True
    with Cons.prems have "generateStructFieldConfigurations_loop rest acc = Return (Some m) None"
      by (simp only: loop_skip)
    with Cons.IH Cons.prems(2) show ?thesis by simp
  next
    case False
    then obtain names where exported: "PkgPath field = []"
      and names: "fieldNames field = Some names"
      by auto
    from loop_step [OF Cons.prems(1) this] obtain cfg
      where "generateStructFieldConfigurations_loop rest
          (foldl (\<lambda>m name. m(name \<mapsto> setStructFieldName cfg (Name field))) acc names) =
        Return (Some m) None"
      by blast
    with Cons.IH Cons.prems(2)
    have "m n = foldl (\<lambda>m name. m(name \<mapsto> setStructFieldName cfg (Name field))) acc names n"
      by simp
    moreover from Cons.prems(2) exported names have "n \<notin> set names" by simp
    ultimately show ?thesis by (simp add: foldl_upd_notin)
  qed
qed

lemma loop_append:
  "generateStructFieldConfigurations_loop (front @ back) acc = Return (Some m) None \<Longrightarrow>
   \<exists>m0. generateStructFieldConfigurations_loop front acc = Return (Some m0) None
       \<and> generateStructFieldConfigurations_loop back m0 = Return (Some m) None"
proof (induction front arbitrary: acc)
  case Nil
  then show ?case by simp
next
  case (Cons field front)
  show ?case
  proof (cases "PkgPath field \<noteq> [] \<or> fieldNames field = None")
    case True
    with Cons.prems
    have "generateStructFieldConfigurations_loop (front @ back) acc = Return (Some m) None"
      by (simp only: loop_skip append_Cons)
    from Cons.IH [OF this] True show ?thesis by (simp only: loop_skip)
  next
    case False
    then obtain names where exported: "PkgPath field = []"
      and names: "fieldNames field = Some names"
      by auto
    from Cons.prems have "generateStructFieldConfigurations_loop (field # front @ back) acc =
        Return (Some m) None"
      by simp
    from loop_step [OF this exported names] obtain cfg
      where cfg: "generateFieldConfigurationInternal (derefType (Type field)) =
          Return (Some cfg) None"
        and "generateStructFieldConfigurations_loop (front @ back)
          (foldl (\<lambda>m name. m(name \<mapsto> setStructFieldName cfg (Name field))) acc names) =
        Return (Some m) None"
      by blast
    from Cons.IH [OF this(2)] exported names cfg show ?thesis by simp
  qed
qed

lemma loop_sources:
  "generateStructFieldConfigurations_loop fs acc = Return (Some m) None \<Longrightarrow> m n = Some c \<Longrightarrow>
   acc n = Some c \<or>
   (\<exists>field \<in> set fs. PkgPath field = []
      \<and> (\<exists>names. fieldNames field = Some names \<and> n \<in> set names)
      \<and> StructFieldName c = Name field)"
proof (induction fs arbitrary: acc)
  case Nil
  then show ?case by simp
next
  case (Cons field rest)
  show ?case
  proof (cases "PkgPath field \<noteq> [] \<or> fieldNames field = None")
    case True
    with Cons.prems(1) have "generateStructFieldConfigurations_loop rest acc = Return (Some m) None"
      by (simp only: loop_skip)
    from Cons.IH [OF this Cons.prems(2)] show ?thesis by auto
  next
    case False
    then obtain names where exported: "PkgPath field = []"
      and names: "fieldNames field = Some names"
      by auto
    from loop_step [OF Cons.prems(1) this] obtain cfg
      where rest: "generateStructFieldConfigurations_loop rest
          (foldl (\<lambda>m name. m(name \<mapsto> setStructFieldName cfg (Name field))) acc names) =
        Return (Some m) None"
      by blast
    let ?acc = "foldl (\<lambda>m name. m(name \<mapsto> setStructFieldName cfg (Name field))) acc names"
    from Cons.IH [OF rest Cons.prems(2)]
    consider "?acc n = Some c"
      | "\<exists>field \<in> set rest. PkgPath field = []
          \<and> (\<exists>names. fieldNames field = Some names \<and> n \<in> set names)
          \<and> StructFieldName c = Name field"
      by blast
    then show ?thesis
    proof cases
      case 1
      show ?thesis
      proof (cases "n \<in> set names")
        case True
        with 1 have "c = setStructFieldName cfg (Name field)"
          by (simp add: foldl_upd_in)
        then have "StructFieldName c = Name field"
          by (simp add: setStructFieldName_def)
        with exported names True show ?thesis by auto
      next
        case False
        with 1 show ?thesis by (simp add: foldl_upd_notin)
      qed
    next
      case 2
      then show ?thesis by auto
    qed
  qed
qed

lemma loop_binds:
  assumes "generateStructFieldConfigurations_loop (field # rest) acc = Return (Some m) None"
    and "PkgPath field = []" and "fieldNames field = Some names" and "n \<in> set names"
    and "\<forall>g \<in> set rest. PkgPath g = [] \<longrightarrow> (\<forall>ns. fieldNames g = Some ns \<longrightarrow> n \<notin> set ns)"
  shows "\<exists>cfg. generateFieldConfigurationInternal (derefType (Type field)) = Return (Some cfg) None
           \<and> m n = Some (setStructFieldName cfg (Name field))"
proof -
  from loop_step [OF assms(1-3)] obtain cfg
    where cfg: "generateFieldConfigurationInternal (derefType (Type field)) =
        Return (Some cfg) None"
      and rest: "generateStructFieldConfigurations_loop rest
          (foldl (\<lambda>m name. m(name \<mapsto> setStructFieldName cfg (Name field))) acc names) =
        Return (Some m) None"
    by blast
  from loop_frame [OF rest assms(5)] assms(4)
  have "m n = Some (setStructFieldName cfg (Name field))"
    by (simp add: foldl_upd_in)
  with cfg show ?thesis by blast
qed

text \<open>
  What the loop binds. When derivation for a struct type, defined or not, returns a map
  of field configurations: an exported field whose \<^verbatim>\<open>fieldNames\<close> are not suppressed has its
  configuration, with \<^verbatim>\<open>StructFieldName\<close> set to the field's name, bound under each of
  those names that no later exported field binds again; every name the map binds is one
  of the \<^verbatim>\<open>fieldNames\<close> of an exported field, whose name is the configuration's
  \<^verbatim>\<open>StructFieldName\<close>, so that a field with a non-empty \<^verbatim>\<open>PkgPath\<close> is bound under no name,
  annotated or not; and the \<^verbatim>\<open>fieldNames\<close> of a field are its own name when the annotation
  is empty, none when the first name of the annotation is \<^verbatim>\<open>-\<close>, and the comma-separated
  names of the annotation otherwise.
\<close>

theorem struct_field_bindings:
  assumes "structFields rtype = Some fs"
    and "generateStructFieldConfigurations rtype = Return (Some m) None"
  shows "(\<forall>front field rest names n.
            fs = front @ field # rest \<and> PkgPath field = [] \<and> fieldNames field = Some names
            \<and> n \<in> set names
            \<and> (\<forall>g \<in> set rest. PkgPath g = [] \<longrightarrow>
                  (\<forall>ns. fieldNames g = Some ns \<longrightarrow> n \<notin> set ns)) \<longrightarrow>
            (\<exists>cfg. generateFieldConfigurationInternal (derefType (Type field)) =
                     Return (Some cfg) None
                  \<and> m n = Some (setStructFieldName cfg (Name field))))
       \<and> (\<forall>n c. m n = Some c \<longrightarrow>
            (\<exists>field \<in> set fs. PkgPath field = []
               \<and> (\<exists>names. fieldNames field = Some names \<and> n \<in> set names)
               \<and> StructFieldName c = Name field))
       \<and> (\<forall>field. fieldNames field =
            (if bexprTag field = [] then Some [Name field]
             else if hd (Split (bexprTag field) CHR '','') = ''-'' then None
             else Some (Split (bexprTag field) CHR '','')))"
proof (intro conjI allI impI)
  from assms
  have loop: "generateStructFieldConfigurations_loop fs Map.empty = Return (Some m) None"
    by (simp add: generateStructFieldConfigurations.simps)
  {
    fix front field rest names n
    assume h: "fs = front @ field # rest \<and> PkgPath field = [] \<and> fieldNames field = Some names
        \<and> n \<in> set names
        \<and> (\<forall>g \<in> set rest. PkgPath g = [] \<longrightarrow> (\<forall>ns. fieldNames g = Some ns \<longrightarrow> n \<notin> set ns))"
    with loop obtain m0
      where "generateStructFieldConfigurations_loop (field # rest) m0 = Return (Some m) None"
      using loop_append [of front "field # rest" Map.empty m] by blast
    from loop_binds [OF this] h
    show "\<exists>cfg. generateFieldConfigurationInternal (derefType (Type field)) =
                     Return (Some cfg) None
                  \<and> m n = Some (setStructFieldName cfg (Name field))"
      by blast
  }
  {
    fix n c
    assume "m n = Some c"
    from loop_sources [OF loop this]
    show "\<exists>field \<in> set fs. PkgPath field = []
               \<and> (\<exists>names. fieldNames field = Some names \<and> n \<in> set names)
               \<and> StructFieldName c = Name field"
      by simp
  }
  {
    fix field
    show "fieldNames field =
            (if bexprTag field = [] then Some [Name field]
             else if hd (Split (bexprTag field) CHR '','') = ''-'' then None
             else Some (Split (bexprTag field) CHR '',''))"
      by (rule fieldNames_cases)
  }
qed

theorem struct_field_bindings_witness:
  "structFields (TStruct account_fields) = Some account_fields
   \<and> generateStructFieldConfigurations (TStruct account_fields) =
     Return (Some account_configs) None
   \<and> fieldNames (StructField ''Name'' [] ''name,alias'' (TBasic KString)) =
       Some [''name'', ''alias'']
   \<and> account_configs ''alias'' =
       Some (FieldConfiguration ''Name'' None (Some (CoercePrimitive KString))
               [MatchEqual, MatchNotEqual])
   \<and> fieldNames (StructField ''Skipped'' [] ''-'' (TBasic KInt)) = None
   \<and> fieldNames (StructField ''Age'' [] [] (TPtr (TBasic KInt))) = Some [''Age'']
   \<and> account_configs ''secret'' = None
   \<and> account_configs ''Skipped'' = None"
proof -
  have fs: "structFields (TStruct account_fields) = Some account_fields"
    by simp
  note b = struct_field_bindings [OF fs account_configs_derived]
  have names: "fieldNames (StructField ''Name'' [] ''name,alias'' (TBasic KString)) =
      Some [''name'', ''alias'']"
    using b by simp
  have skipped: "fieldNames (StructField ''Skipped'' [] ''-'' (TBasic KInt)) = None"
    using b by simp
  have age: "fieldNames (StructField ''Age'' [] [] (TPtr (TBasic KInt))) = Some [''Age'']"
    using b by simp
  have secret: "fieldNames (StructField ''secret'' ''main'' ''secret'' (TBasic KString)) =
      Some [''secret'']"
    using b by simp
  have "\<exists>cfg. generateFieldConfigurationInternal
            (derefType (Type (StructField ''Name'' [] ''name,alias'' (TBasic KString)))) =
          Return (Some cfg) None
        \<and> account_configs ''alias'' = Some (setStructFieldName cfg
            (Name (StructField ''Name'' [] ''name,alias'' (TBasic KString))))"
    using b [THEN conjunct1, rule_format, of "[]"
        "StructField ''Name'' [] ''name,alias'' (TBasic KString)"
        "[StructField ''secret'' ''main'' ''secret'' (TBasic KString),
          StructField ''Skipped'' [] ''-'' (TBasic KInt),
          StructField ''Age'' [] [] (TPtr (TBasic KInt))]"
        "[''name'', ''alias'']" "''alias''"]
      names skipped age
    by (simp add: account_fields_def)
  then have bound: "account_configs ''alias'' =
      Some (FieldConfiguration ''Name'' None (Some (CoercePrimitive KString))
              [MatchEqual, MatchNotEqual])"
    by (auto simp: derive_defs)
  have none: "account_configs n = None" if "n \<notin> {''name'', ''alias'', ''Age''}" for n
  proof (cases "account_configs n")
    case None
    then show ?thesis .
  next
    case (Some c)
    from b [THEN conjunct2, THEN conjunct1, rule_format, OF Some] that names skipped age secret
    show ?thesis by (auto simp: account_fields_def)
  qed
  from account_configs_derived names bound skipped age none [of "''secret''"]
    none [of "''Skipped''"]
  show ?thesis by simp
qed

text \<open>
  Claim C4. The claim has an unexported field exposed when it carries an annotation, and
  so has the comment on \<^verbatim>\<open>GenerateFieldConfigurations\<close>: unexported fields are not
  selectable by default, and a struct tag that is present overrides this. The loop
  leaves the iteration at a non-empty \<^verbatim>\<open>PkgPath\<close> before it looks at the annotation: the
  record with the one unexported field annotated \<^verbatim>\<open>secret\<close> derives to the empty map,
  where the same field exported is bound under \<^verbatim>\<open>secret\<close>.
\<close>

theorem unexported_annotated_field_skipped:
  "PkgPath (StructField ''secret'' ''main'' ''secret'' (TBasic KString)) \<noteq> []
   \<and> bexprTag (StructField ''secret'' ''main'' ''secret'' (TBasic KString)) = ''secret''
   \<and> generateStructFieldConfigurations
        (TStruct [StructField ''secret'' ''main'' ''secret'' (TBasic KString)]) =
       Return (Some Map.empty) None
   \<and> generateStructFieldConfigurations
        (TStruct [StructField ''Secret'' [] ''secret'' (TBasic KString)]) =
       Return (Some [''secret'' \<mapsto> FieldConfiguration ''Secret'' None
                       (Some (CoercePrimitive KString)) [MatchEqual, MatchNotEqual]]) None"
  by (simp add: derive_defs)

text \<open>
  Claim C5. A type of unsupported kind derives to the \<^verbatim>\<open>nil\<close> configuration without
  error, and the derivation for a slice or a map of such elements goes on without
  sub-fields; the derivation for a struct with an exported field of such a type assigns
  through the \<^verbatim>\<open>nil\<close> pointer and panics, where the claim has it complete.
\<close>

theorem unsupported_field_panics:
  "generateFieldConfigurationInternal (TBasic KChan) = Return None None
   \<and> generateSliceFieldConfiguration (TBasic KChan) =
       Return (Some (FieldConfiguration [] None None [MatchIsEmpty, MatchIsNotEmpty])) None
   \<and> generateMapFieldConfiguration (TBasic KString) (TBasic KChan) =
       Return (Some (FieldConfiguration [] None (Some CoerceString)
                       [MatchIsEmpty, MatchIsNotEmpty, MatchIn, MatchNotIn])) None
   \<and> generateStructFieldConfigurations
         (TStruct [StructField ''Events'' [] [] (TBasic KChan)]) = Panic
   \<and> GenerateFieldConfigurations
         (Some (TStruct [StructField ''Events'' [] [] (TBasic KChan)],
                VStruct [(''Events'', VChan 0)])) = Panic"
  by (simp add: derive_defs)

end
